theory Spec2Isabelle
  imports Main "HOL-Library.Word" "HOL-Library.Char_ord" "HOL-Library.List_Lexorder"
    "HOL-Library.AList" "HOL-Library.Sublist"
begin

section \<open>The transaction layer of nutsdb (tx.go)\<close>

text \<open>
  A shallow embedding of \<^verbatim>\<open>tx.go\<close>: the transaction object, its write operations,
  \<^verbatim>\<open>Commit\<close> with the segment rotation and the index builders, \<^verbatim>\<open>Rollback\<close> and
  \<^verbatim>\<open>CommitWith\<close>. Byte strings are \<open>string\<close>s ordered bytewise (the order of
  \<^verbatim>\<open>bytes.Compare\<close>). A Go function that returns \<^verbatim>\<open>error\<close> returns an
  \<open>error option\<close> here (\<open>None\<close> is \<^verbatim>\<open>nil\<close>); a run-time panic is a result of its
  own. Sizes and offsets (\<^verbatim>\<open>int64\<close>) are \<open>int\<close>: they are byte counts of data held in
  memory and stay far below \<open>2 ^ 63\<close>. The file identifiers are \<open>64 word\<close>, because a
  claim about their order depends on the counter not wrapping.
\<close>

subsection \<open>Errors, status values and constants\<close>

datatype error =
    ErrDataSizeExceed
  | ErrTxClosed
  | ErrTxNotWritable
  | ErrKeyEmpty
  | ErrBucketEmpty
  | ErrCannotCommitAClosedTx
  | ErrCannotRollbackACommittingTx
  | ErrCannotRollbackAClosedTx
  | ErrTxnTooBig
  | ErrDBClosed
  | ErrNotEnoughFileSpace  \<comment> \<open>\<^verbatim>\<open>errors.New("not enough file space")\<close> of writeData\<close>
  | ErrExternal nat        \<comment> \<open>an error handed back by a collaborator outside tx.go\<close>

text \<open>What a call does: it returns a value, or it panics.\<close>

datatype 'a outcome = Return 'a | Panic

datatype tx_status = txStatusRunning | txStatusCommitting | txStatusClosed

datatype entry_status = UnCommitted | Committed

datatype flag =
    DataDeleteFlag | DataSetFlag
  | DataLPushFlag | DataRPushFlag | DataLRemFlag | DataLPopFlag | DataRPopFlag
  | DataLSetFlag | DataLTrimFlag | DataLRemByIndex | DataExpireListFlag
  | DataZAddFlag | DataZRemFlag | DataZRemRangeByRankFlag | DataZPopMaxFlag | DataZPopMinFlag
  | DataSetBucketDeleteFlag | DataSortedSetBucketDeleteFlag
  | DataBPTreeBucketDeleteFlag | DataListBucketDeleteFlag

datatype ds =
    DataStructureNone | DataStructureTree | DataStructureList
  | DataStructureSet | DataStructureSortedSet

datatype idx_mode = HintKeyValAndRAMIdxMode | HintKeyAndRAMIdxMode | HintBPTSparseIdxMode

datatype rw_mode = FileIO | MMap

text \<open>Modelled from the spec: the constant \<^verbatim>\<open>Persistent\<close> is declared outside tx.go;
  the spec gives "ttl (seconds; 0 = persistent)".\<close>

definition Persistent :: "32 word" where
  "Persistent = 0"

subsection \<open>Entries, hints and records\<close>

record MetaData =
  Timestamp :: "64 word"
  TTL :: "32 word"
  Flag :: flag
  Ds :: ds
  Status :: entry_status
  TxID :: "64 word"
  KeySize :: "32 word"
  ValueSize :: "32 word"
  BucketSize :: "32 word"

record Entry =
  Key :: string
  Value :: string
  Bucket :: string
  Meta :: MetaData

record Hint =
  hKey :: string
  hFileID :: "64 word"
  hMeta :: MetaData
  hDataPos :: "64 word"

text \<open>\<^verbatim>\<open>Record\<close>: the hint, the value (\<open>None\<close> is a nil slice) and the bucket.\<close>

record Record =
  recH :: Hint
  recV :: "string option"
  recBucket :: string

text \<open>\<^verbatim>\<open>BucketMeta\<close>; \<open>None\<close> is a nil slice, the zero value of the scratch copy.\<close>

record BucketMeta =
  bm_start :: "string option"
  bm_end :: "string option"
  bm_startSize :: "32 word"
  bm_endSize :: "32 word"

subsection \<open>Collaborators declared outside tx.go\<close>

text \<open>
  The B+ tree, the list, set and sorted-set structures are declared outside tx.go. The model
  keeps each of them as the sequence of the method calls tx.go makes on it, so that "the
  index is unchanged" means that no call was made. Numbers that tx.go parses out of a key
  or value with strconv2 stay text in the call.
\<close>

datatype bpt_item =
    TxIDItem "64 word"     \<comment> \<open>\<^verbatim>\<open>Insert([]byte(txIDStr), nil, NewHint().WithMeta(meta), countFlag)\<close>\<close>
  | RootAddrItem           \<comment> \<open>the root address of a persisted transaction-id tree\<close>
  | KeyItem string Hint    \<comment> \<open>\<^verbatim>\<open>Insert(newKey, nil, hint, countFlag)\<close>\<close>

text \<open>The files of the sparse mode, named as the path helpers name them.\<close>

datatype path =
    BPTPath "64 word"
  | BPTRootPath "64 word"
  | BPTTxIDPath "64 word"
  | BPTRootTxIDPath "64 word"

record BPTree =
  bpt_items :: "(bpt_item \<times> bool) list"
  bpt_Filepath :: "path option"
  bpt_enabledKeyPosMap :: bool
  bpt_keyPosMap :: "string \<rightharpoonup> int"

definition NewTree :: BPTree where
  "NewTree = \<lparr>bpt_items = [], bpt_Filepath = None, bpt_enabledKeyPosMap = False,
     bpt_keyPosMap = Map.empty\<rparr>"

definition bpt_Insert :: "bpt_item \<Rightarrow> bool \<Rightarrow> BPTree \<Rightarrow> BPTree" where
  "bpt_Insert it countFlag t = t\<lparr>bpt_items := bpt_items t @ [(it, countFlag)]\<rparr>"

text \<open>\<^verbatim>\<open>BPTreeRootIdx\<close>: its \<^verbatim>\<open>rootOff\<close>, \<^verbatim>\<open>start\<close> and \<^verbatim>\<open>end\<close> are read off the persisted
  tree, which the model keeps whole.\<close>

record BPTreeRootIdx =
  ri_fID :: "64 word"
  ri_tree :: BPTree

datatype set_op =
    SAdd string "string option" Record
  | SRem string "string option"

datatype zset_op =
    ZAdd string string "string option" Record   \<comment> \<open>name, score text, value, record\<close>
  | ZRem string "string option"
  | ZRemRangeByRank string string string
  | ZPopMax string
  | ZPopMin string

datatype list_op =
    ExpireList string "string option" "64 word"   \<comment> \<open>\<^verbatim>\<open>l.TTL[key]\<close>, \<^verbatim>\<open>l.TimeStamp[key]\<close>\<close>
  | LPush string Record
  | RPush string Record
  | LRem string string string
  | LPop string
  | RPop string
  | LSet string string Record
  | LTrim string string "string option"
  | LRemByIndex string "string option"

text \<open>The ordered map of a bucket: key to (value, hint); the value is kept only in
  \<open>HintKeyValAndRAMIdxMode\<close>.\<close>

type_synonym BTree = "string \<rightharpoonup> (string option \<times> Hint)"

record DataFile =
  fileID :: "64 word"
  writeOff :: int
  ActualSize :: int
  content :: "(int \<times> Entry) list"   \<comment> \<open>what \<^verbatim>\<open>WriteAt\<close> put into the file: position and entry\<close>

record Options =
  SegmentSize :: int
  CommitBufferSize :: int
  EntryIdxMode :: idx_mode
  SyncEnable :: bool
  RWMode :: rw_mode
  MaxBatchCount :: int
  MaxBatchSize :: int
  ErrorHandler :: bool   \<comment> \<open>\<^verbatim>\<open>ErrorHandler != nil\<close>\<close>

text \<open>\<^verbatim>\<open>txnCb\<close>: the user callback is known by a name (\<open>None\<close> is nil); \<open>cb_commit\<close>
  says whether the waiter closure of commitAndSend is set.\<close>

record txnCb =
  cb_commit :: bool
  cb_user :: "nat option"
  cb_err :: "error option"

text \<open>What the transaction layer does to the world outside the DB's data, in order.\<close>

datatype event =
    EvHandleError error            \<comment> \<open>\<^verbatim>\<open>ErrorHandler.HandleError(err)\<close>\<close>
  | EvUnlock                       \<comment> \<open>\<^verbatim>\<open>db.mu.Unlock()\<close>\<close>
  | EvRUnlock                      \<comment> \<open>\<^verbatim>\<open>db.mu.RUnlock()\<close>\<close>
  | EvGo txnCb                     \<comment> \<open>\<^verbatim>\<open>go runTxnCallback(cb)\<close>\<close>
  | EvSendToWriteCh                \<comment> \<open>\<^verbatim>\<open>db.sendToWriteCh(tx)\<close>\<close>
  | EvUserCallback nat "error option"   \<comment> \<open>\<^verbatim>\<open>cb.user(err)\<close>\<close>

text \<open>
  The DB, as far as tx.go reads and writes it. Three fields stand for the world behind
  the collaborators: \<open>io\<close> scripts the results of the fallible calls tx.go makes outside
  itself (each call takes the head; the empty script lets every call succeed), \<open>clock\<close>
  is \<^verbatim>\<open>time.Now()\<close> in milliseconds, and \<open>trace\<close> records lock releases, handler and
  callback invocations. \<open>released\<close>, \<open>bptFiles\<close> and \<open>bucketMetaFiles\<close> are the files
  on disk other than the active segment (a bucket-meta file that was created and not yet
  written holds \<open>None\<close>).
\<close>

record DB =
  opt :: Options
  ActiveFile :: DataFile
  MaxFileID :: "64 word"
  isMerging :: bool
  commitBuffer :: "Entry list"
  BTreeIdx :: "string \<rightharpoonup> BTree"
  tm :: "(string \<times> string) \<rightharpoonup> int"
  SetIdx :: "string \<rightharpoonup> set_op list"
  SortedSetIdx :: "string \<rightharpoonup> zset_op list"
  ListIdx :: "string \<rightharpoonup> list_op list"
  BPTreeKeyEntryPosMap :: "string \<rightharpoonup> int"
  ActiveBPTreeIdx :: BPTree
  BPTreeRootIdxes :: "BPTreeRootIdx list"
  ActiveCommittedTxIdsIdx :: BPTree
  bucketMetas :: "string \<rightharpoonup> BucketMeta"
  KeyCount :: int
  released :: "DataFile list"
  bptFiles :: "BPTree list"
  bucketMetaFiles :: "string \<rightharpoonup> BucketMeta option"
  io :: "error option list"
  clock :: int
  trace :: "event list"

text \<open>
  \<^verbatim>\<open>Tx\<close>. There is one DB, so \<open>tx_db\<close> is \<open>Some ()\<close> for a pointer to it and \<open>None\<close> for
  nil. \<^verbatim>\<open>ReservedStoreTxIDIdxes\<close> is an association list from file id to tree; a nil
  map and an empty map are both \<open>[]\<close>.
\<close>

record Tx =
  tx_id :: "64 word"
  tx_db :: "unit option"
  tx_writable :: bool
  tx_status :: tx_status
  tx_pendingWrites :: "Entry list"
  tx_ReservedStoreTxIDIdxes :: "(64 word \<times> BPTree) list"
  tx_size :: int

text \<open>
  The functions of other files that tx.go calls and whose bodies it does not show:
  \<^verbatim>\<open>Entry.Size\<close> (the number of bytes of \<^verbatim>\<open>Entry.Encode\<close>), \<^verbatim>\<open>Entry.valid\<close>,
  \<^verbatim>\<open>IsExpired\<close>, \<^verbatim>\<open>getNewKey\<close>, and \<^verbatim>\<open>strings.Split\<close> at the two separators.
\<close>

record extern =
  Size :: "Entry \<Rightarrow> nat"
  valid :: "Entry \<Rightarrow> error option"
  IsExpired :: "32 word \<Rightarrow> 64 word \<Rightarrow> int \<Rightarrow> bool"
  getNewKey :: "string \<Rightarrow> string \<Rightarrow> string"
  SplitZSetKey :: "string \<Rightarrow> string list"
  SplitListKey :: "string \<Rightarrow> string list"


subsection \<open>Small helpers\<close>

text \<open>One fallible call outside tx.go: it takes the head of the script.\<close>

definition io_call :: "DB \<Rightarrow> error option \<times> DB" where
  "io_call d = ((case io d of [] \<Rightarrow> None | r # rs \<Rightarrow> r), d\<lparr>io := tl (io d)\<rparr>)"

text \<open>Modelled from the spec: \<^verbatim>\<open>compare\<close> is declared outside tx.go; the spec speaks of
  "the key order", which for byte strings is the bytewise lexicographic order of
  \<^verbatim>\<open>bytes.Compare\<close>.\<close>

definition compare :: "string \<Rightarrow> string \<Rightarrow> int" where
  "compare a b = (if a < b then - 1 else if a = b then 0 else 1)"

text \<open>The bytes of a slice that may be nil.\<close>

definition bytes_of :: "string option \<Rightarrow> string" where
  "bytes_of s = (case s of None \<Rightarrow> [] | Some b \<Rightarrow> b)"

text \<open>\<^verbatim>\<open>buff.Len()\<close>: the buffer holds encoded entries, each of \<open>Size\<close> bytes.\<close>

definition Len :: "extern \<Rightarrow> Entry list \<Rightarrow> int" where
  "Len E buff = int (sum_list (map (Size E) buff))"

definition isRunning :: "Tx \<Rightarrow> bool" where
  "isRunning tx = (tx_status tx = txStatusRunning)"

definition isCommitting :: "Tx \<Rightarrow> bool" where
  "isCommitting tx = (tx_status tx = txStatusCommitting)"

definition isClosed :: "Tx \<Rightarrow> bool" where
  "isClosed tx = (tx_status tx = txStatusClosed)"

definition setStatusCommitting :: "Tx \<Rightarrow> Tx" where
  "setStatusCommitting tx = tx\<lparr>tx_status := txStatusCommitting\<rparr>"

definition setStatusClosed :: "Tx \<Rightarrow> Tx" where
  "setStatusClosed tx = tx\<lparr>tx_status := txStatusClosed\<rparr>"

definition setStatusRunning :: "Tx \<Rightarrow> Tx" where
  "setStatusRunning tx = tx\<lparr>tx_status := txStatusRunning\<rparr>"

text \<open>\<^verbatim>\<open>unlock\<close> and \<^verbatim>\<open>handleErr\<close> reach the DB through \<^verbatim>\<open>tx.db\<close>: with a nil
  \<^verbatim>\<open>tx.db\<close> they panic.\<close>

definition unlock :: "Tx \<Rightarrow> DB \<Rightarrow> DB outcome" where
  "unlock tx d =
     (case tx_db tx of
        None \<Rightarrow> Panic
      | Some _ \<Rightarrow>
          if tx_writable tx then Return (d\<lparr>trace := trace d @ [EvUnlock]\<rparr>)
          else Return (d\<lparr>trace := trace d @ [EvRUnlock]\<rparr>))"

definition handleErr :: "error \<Rightarrow> Tx \<Rightarrow> DB \<Rightarrow> DB outcome" where
  "handleErr err tx d =
     (case tx_db tx of
        None \<Rightarrow> Panic
      | Some _ \<Rightarrow>
          if ErrorHandler (opt d) then Return (d\<lparr>trace := trace d @ [EvHandleError err]\<rparr>)
          else Return d)"

subsection \<open>checkSize, put, putDeleteLog\<close>

definition checkSize :: "Tx \<Rightarrow> DB \<Rightarrow> error option outcome" where
  "checkSize tx d =
     (case tx_db tx of
        None \<Rightarrow> Panic
      | Some _ \<Rightarrow>
          let count = length (tx_pendingWrites tx) in
          if int count \<ge> MaxBatchCount (opt d) \<or> tx_size tx \<ge> MaxBatchSize (opt d)
          then Return (Some ErrTxnTooBig)
          else Return None)"

definition checkTxIsClosed :: "Tx \<Rightarrow> error option" where
  "checkTxIsClosed tx = (if tx_db tx = None then Some ErrTxClosed else None)"

text \<open>The entry that \<^verbatim>\<open>put\<close> and \<^verbatim>\<open>putDeleteLog\<close> build.\<close>

definition newEntry ::
  "Tx \<Rightarrow> string \<Rightarrow> string \<Rightarrow> string \<Rightarrow> 32 word \<Rightarrow> flag \<Rightarrow> 64 word \<Rightarrow> ds \<Rightarrow> Entry" where
  "newEntry tx bucket key val ttl flg timestamp dsv =
     \<lparr>Key = key, Value = val, Bucket = bucket,
      Meta = \<lparr>Timestamp = timestamp, TTL = ttl, Flag = flg, Ds = dsv, Status = UnCommitted,
              TxID = tx_id tx, KeySize = of_nat (length key), ValueSize = of_nat (length val),
              BucketSize = of_nat (length bucket)\<rparr>\<rparr>"

definition put ::
  "extern \<Rightarrow> string \<Rightarrow> string \<Rightarrow> string \<Rightarrow> 32 word \<Rightarrow> flag \<Rightarrow> 64 word \<Rightarrow> ds \<Rightarrow> Tx
     \<Rightarrow> error option \<times> Tx" where
  "put E bucket key val ttl flg timestamp dsv tx =
     (case checkTxIsClosed tx of
        Some err \<Rightarrow> (Some err, tx)
      | None \<Rightarrow>
          if \<not> tx_writable tx then (Some ErrTxNotWritable, tx)
          else
            let e = newEntry tx bucket key val ttl flg timestamp dsv in
            (case valid E e of
               Some err \<Rightarrow> (Some err, tx)
             | None \<Rightarrow>
                 (None, tx\<lparr>tx_pendingWrites := tx_pendingWrites tx @ [e],
                           tx_size := tx_size tx + int (Size E e)\<rparr>)))"

text \<open>\<^verbatim>\<open>Put\<close> reads the clock for the timestamp; the caller passes it here.\<close>

definition Put :: "extern \<Rightarrow> 64 word \<Rightarrow> string \<Rightarrow> string \<Rightarrow> string \<Rightarrow> 32 word \<Rightarrow> Tx
     \<Rightarrow> error option \<times> Tx" where
  "Put E now bucket key val ttl tx =
     put E bucket key val ttl DataSetFlag now DataStructureTree tx"

definition PutWithTimestamp ::
  "extern \<Rightarrow> string \<Rightarrow> string \<Rightarrow> string \<Rightarrow> 32 word \<Rightarrow> 64 word \<Rightarrow> Tx \<Rightarrow> error option \<times> Tx" where
  "PutWithTimestamp E bucket key val ttl timestamp tx =
     put E bucket key val ttl DataSetFlag timestamp DataStructureTree tx"

definition putDeleteLog ::
  "extern \<Rightarrow> string \<Rightarrow> string \<Rightarrow> string \<Rightarrow> 32 word \<Rightarrow> flag \<Rightarrow> 64 word \<Rightarrow> ds \<Rightarrow> Tx \<Rightarrow> Tx" where
  "putDeleteLog E bucket key val ttl flg timestamp dsv tx =
     (let e = newEntry tx bucket key val ttl flg timestamp dsv in
      tx\<lparr>tx_pendingWrites := tx_pendingWrites tx @ [e],
         tx_size := tx_size tx + int (Size E e)\<rparr>)"

subsection \<open>Rollback\<close>

definition Rollback :: "Tx \<Rightarrow> DB \<Rightarrow> error option outcome \<times> Tx \<times> DB" where
  "Rollback tx d =
     (if tx_db tx = None then (Return (Some ErrDBClosed), setStatusClosed tx, d)
      else if isCommitting tx then (Return (Some ErrCannotRollbackACommittingTx), tx, d)
      else if isClosed tx then (Return (Some ErrCannotRollbackAClosedTx), tx, d)
      else
        let tx1 = setStatusClosed tx in
        (case unlock tx1 d of
           Panic \<Rightarrow> (Panic, tx1, d)
         | Return d1 \<Rightarrow> (Return None, tx1\<lparr>tx_db := None, tx_pendingWrites := []\<rparr>, d1)))"

subsection \<open>CommitWith and the callback runner\<close>

text \<open>\<^verbatim>\<open>runTxnCallback\<close>; \<^verbatim>\<open>cb.commit()\<close> waits for the dispatcher's answer, a call
  outside tx.go.\<close>

definition runTxnCallback :: "txnCb option \<Rightarrow> DB \<Rightarrow> DB outcome" where
  "runTxnCallback cbo d =
     (case cbo of
        None \<Rightarrow> Panic
      | Some cb \<Rightarrow>
          (case cb_user cb of
             None \<Rightarrow> Panic
           | Some u \<Rightarrow>
               (case cb_err cb of
                  Some err \<Rightarrow> Return (d\<lparr>trace := trace d @ [EvUserCallback u (Some err)]\<rparr>)
                | None \<Rightarrow>
                    if cb_commit cb then
                      (case io_call d of
                         (err, d1) \<Rightarrow> Return (d1\<lparr>trace := trace d1 @ [EvUserCallback u err]\<rparr>))
                    else Return (d\<lparr>trace := trace d @ [EvUserCallback u None]\<rparr>))))"

text \<open>\<^verbatim>\<open>commitAndSend\<close>: the submission to the dispatcher is a call outside tx.go; it
  answers with a waiter or an error.\<close>

definition commitAndSend :: "Tx \<Rightarrow> DB \<Rightarrow> error option \<times> DB" where
  "commitAndSend tx d = io_call (d\<lparr>trace := trace d @ [EvSendToWriteCh]\<rparr>)"

text \<open>\<^verbatim>\<open>CommitWith\<close>: a \<^verbatim>\<open>go\<close> statement starts the callback runner on another
  goroutine; the model records what was started.\<close>

definition CommitWith :: "nat option \<Rightarrow> Tx \<Rightarrow> DB \<Rightarrow> DB outcome" where
  "CommitWith cb tx d =
     (case cb of
        None \<Rightarrow> Panic
      | Some u \<Rightarrow>
          if length (tx_pendingWrites tx) = 0 then
            Return (d\<lparr>trace := trace d @ [EvGo \<lparr>cb_commit = False, cb_user = cb, cb_err = None\<rparr>]\<rparr>)
          else
            (case commitAndSend tx d of
               (Some err, d1) \<Rightarrow>
                 Return (d1\<lparr>trace := trace d1 @
                   [EvGo \<lparr>cb_commit = False, cb_user = cb, cb_err = Some err\<rparr>]\<rparr>)
             | (None, d1) \<Rightarrow>
                 Return (d1\<lparr>trace := trace d1 @
                   [EvGo \<lparr>cb_commit = True, cb_user = cb, cb_err = None\<rparr>]\<rparr>)))"


subsection \<open>writeData and rotateActiveFile\<close>

text \<open>The positions of the entries of a buffer written at \<open>off\<close>.\<close>

fun place :: "extern \<Rightarrow> int \<Rightarrow> Entry list \<Rightarrow> (int \<times> Entry) list" where
  "place E off [] = []"
| "place E off (e # es) = (off, e) # place E (off + int (Size E e)) es"

text \<open>\<^verbatim>\<open>DataFile.WriteAt\<close> and \<^verbatim>\<open>rwManager.Sync\<close> are calls outside tx.go.\<close>

definition writeData :: "extern \<Rightarrow> Entry list \<Rightarrow> DB \<Rightarrow> error option \<times> DB" where
  "writeData E data d =
     (if Len E data = 0 then (None, d)
      else
        let writeOffset = ActualSize (ActiveFile d);
            l = Len E data
        in
        if writeOffset + l > SegmentSize (opt d) then (Some ErrNotEnoughFileSpace, d)
        else
          (case io_call d of
             (Some err, d1) \<Rightarrow> (Some err, d1)
           | (None, d1) \<Rightarrow>
               let f = ActiveFile d1;
                   d2 = d1\<lparr>ActiveFile := f\<lparr>content := content f @ place E writeOffset data,
                                              writeOff := writeOff f + l,
                                              ActualSize := ActualSize f + l\<rparr>\<rparr>
               in
               if SyncEnable (opt d2) then
                 (case io_call d2 of
                    (Some err, d3) \<Rightarrow> (Some err, d3)
                  | (None, d3) \<Rightarrow> (None, d3))
               else (None, d2)))"

text \<open>The sparse-mode part of \<^verbatim>\<open>rotateActiveFile\<close>.\<close>

definition rotate_sparse :: "64 word \<Rightarrow> Tx \<Rightarrow> DB \<Rightarrow> error option \<times> Tx \<times> DB" where
  "rotate_sparse fID tx d =
     (let t = (ActiveBPTreeIdx d)\<lparr>bpt_Filepath := Some (BPTPath fID),
                                  bpt_enabledKeyPosMap := True,
                                  bpt_keyPosMap := BPTreeKeyEntryPosMap d\<rparr>;
          d0 = d\<lparr>ActiveBPTreeIdx := t\<rparr>
      in
      (case io_call d0 of
         (Some err, d1) \<Rightarrow> (Some err, tx, d1)
       | (None, d1) \<Rightarrow>
           let d2 = d1\<lparr>bptFiles := bptFiles d1 @ [t]\<rparr>;
               rootIdx = \<lparr>ri_fID = fID, ri_tree = t\<rparr>
           in
           (case io_call d2 of
              (Some err, d3) \<Rightarrow> (Some err, tx, d3)
            | (None, d3) \<Rightarrow>
                (None,
                 tx\<lparr>tx_ReservedStoreTxIDIdxes :=
                      AList.update fID (ActiveCommittedTxIdsIdx d3) (tx_ReservedStoreTxIDIdxes tx)\<rparr>,
                 d3\<lparr>BPTreeRootIdxes := BPTreeRootIdxes d3 @ [rootIdx],
                    BPTreeKeyEntryPosMap := Map.empty,
                    ActiveBPTreeIdx := NewTree,
                    ActiveCommittedTxIdsIdx := NewTree\<rparr>))))"

text \<open>Modelled from the spec: \<^verbatim>\<open>fm.getDataFile\<close> is declared outside tx.go; the spec has
  "open a new active segment file of size SegmentSize", and a segment holds \<^verbatim>\<open>writeOff\<close>
  (next append position) and \<^verbatim>\<open>ActualSize\<close> (bytes written), both 0 for a new file.\<close>

definition getDataFile :: DataFile where
  "getDataFile = \<lparr>fileID = 0, writeOff = 0, ActualSize = 0, content = []\<rparr>"

text \<open>\<^verbatim>\<open>rotateActiveFile\<close>. The file that stops being active goes to \<open>released\<close>. When
  \<^verbatim>\<open>getDataFile\<close> fails, \<^verbatim>\<open>Commit\<close> returns at once and the model leaves
  \<open>ActiveFile\<close> as it was.\<close>

definition rotateActiveFile :: "Tx \<Rightarrow> DB \<Rightarrow> error option \<times> Tx \<times> DB" where
  "rotateActiveFile tx d =
     (let fID = MaxFileID d;
          d1 = d\<lparr>MaxFileID := MaxFileID d + 1\<rparr>
      in
      (case (if \<not> SyncEnable (opt d1) \<and> RWMode (opt d1) = MMap then io_call d1 else (None, d1)) of
         (Some err, d2) \<Rightarrow> (Some err, tx, d2)
       | (None, d2) \<Rightarrow>
           (case io_call d2 of
              (Some err, d3) \<Rightarrow> (Some err, tx, d3)
            | (None, d3) \<Rightarrow>
                (case (if EntryIdxMode (opt d3) = HintBPTSparseIdxMode then rotate_sparse fID tx d3
                       else (None, tx, d3)) of
                   (Some err, tx4, d4) \<Rightarrow> (Some err, tx4, d4)
                 | (None, tx4, d4) \<Rightarrow>
                     (case io_call d4 of
                        (Some err, d5) \<Rightarrow> (Some err, tx4, d5)
                      | (None, d5) \<Rightarrow>
                          (None, tx4,
                           d5\<lparr>released := released d5 @ [ActiveFile d5],
                              ActiveFile := getDataFile\<lparr>fileID := MaxFileID d5\<rparr>\<rparr>))))))"

subsection \<open>The index builders\<close>

definition buildTempBucketMetaIdx :: "string \<Rightarrow> string \<Rightarrow> BucketMeta \<Rightarrow> BucketMeta" where
  "buildTempBucketMetaIdx bucket key bucketMetaTemp =
     (let keySize = of_nat (length key) in
      if bm_start bucketMetaTemp = None then
        \<lparr>bm_start = Some key, bm_end = Some key, bm_startSize = keySize, bm_endSize = keySize\<rparr>
      else
        let b1 = (if compare (bytes_of (bm_start bucketMetaTemp)) key > 0
                  then bucketMetaTemp\<lparr>bm_start := Some key, bm_startSize := keySize\<rparr>
                  else bucketMetaTemp);
            b2 = (if compare (bytes_of (bm_end b1)) key < 0
                  then b1\<lparr>bm_end := Some key, bm_endSize := keySize\<rparr>
                  else b1)
        in b2)"

text \<open>\<^verbatim>\<open>buildBucketMetaIdx\<close>, in three parts. Lines 398 to 421: the cached meta of the
  bucket (\<open>None\<close> when \<^verbatim>\<open>ok\<close> is false) is widened by the scratch; the result is the
  meta and \<^verbatim>\<open>updateFlag\<close>.\<close>

definition widenBucketMeta :: "BucketMeta option \<Rightarrow> BucketMeta \<Rightarrow> BucketMeta \<times> bool" where
  "widenBucketMeta cached bucketMetaTemp =
     (let start = bm_start bucketMetaTemp;
          startSize = of_nat (length (bytes_of start));
          end' = bm_end bucketMetaTemp;
          endSize = of_nat (length (bytes_of end'))
      in
      (case cached of
         None \<Rightarrow>
           (\<lparr>bm_start = start, bm_end = end', bm_startSize = startSize, bm_endSize = endSize\<rparr>, True)
       | Some bm \<Rightarrow>
           let w1 = compare (bytes_of (bm_start bm)) (bytes_of (bm_start bucketMetaTemp)) > 0;
               bm1 = (if w1 then bm\<lparr>bm_start := start, bm_startSize := startSize\<rparr> else bm);
               w2 = compare (bytes_of (bm_end bm1)) (bytes_of (bm_end bucketMetaTemp)) < 0;
               bm2 = (if w2 then bm1\<lparr>bm_end := end', bm_endSize := endSize\<rparr> else bm1)
           in (bm2, w1 \<or> w2)))"

text \<open>Lines 423 to 440, the body of \<^verbatim>\<open>if updateFlag\<close>: \<^verbatim>\<open>os.OpenFile\<close> with
  \<^verbatim>\<open>O_CREATE\<close>, \<^verbatim>\<open>fd.WriteAt\<close> and \<^verbatim>\<open>fd.Sync\<close> are calls outside tx.go.\<close>

definition storeBucketMeta :: "string \<Rightarrow> BucketMeta \<Rightarrow> DB \<Rightarrow> error option \<times> DB" where
  "storeBucketMeta bucket bucketMeta d0 =
     (case io_call d0 of
        (Some err, d1) \<Rightarrow> (Some err, d1)
      | (None, d1) \<Rightarrow>
          let d2 = (case bucketMetaFiles d1 bucket of
                      None \<Rightarrow> d1\<lparr>bucketMetaFiles := (bucketMetaFiles d1)(bucket \<mapsto> None)\<rparr>
                    | Some _ \<Rightarrow> d1)
          in
          (case io_call d2 of
             (Some err, d3) \<Rightarrow> (Some err, d3)
           | (None, d3) \<Rightarrow>
               let d4 = d3\<lparr>bucketMetaFiles := (bucketMetaFiles d3)(bucket \<mapsto> Some bucketMeta)\<rparr> in
               (case (if SyncEnable (opt d4) then io_call d4 else (None, d4)) of
                  (Some err, d5) \<Rightarrow> (Some err, d5)
                | (None, d5) \<Rightarrow>
                    (None, d5\<lparr>bucketMetas := (bucketMetas d5)(bucket \<mapsto> bucketMeta)\<rparr>))))"

text \<open>The whole function. A cached \<^verbatim>\<open>*BucketMeta\<close> is widened in place, through the
  pointer, before the file is written.\<close>

definition buildBucketMetaIdx :: "string \<Rightarrow> string \<Rightarrow> BucketMeta \<Rightarrow> DB \<Rightarrow> error option \<times> DB" where
  "buildBucketMetaIdx bucket key bucketMetaTemp d =
     (let w = widenBucketMeta (bucketMetas d bucket) bucketMetaTemp;
          bucketMeta = fst w;
          updateFlag = snd w;
          d0 = (case bucketMetas d bucket of
                  None \<Rightarrow> d
                | Some _ \<Rightarrow> d\<lparr>bucketMetas := (bucketMetas d)(bucket \<mapsto> bucketMeta)\<rparr>)
      in
      if updateFlag then storeBucketMeta bucket bucketMeta d0 else (None, d0))"

text \<open>The loop of \<^verbatim>\<open>buildTxIDRootIdx\<close> over \<^verbatim>\<open>ReservedStoreTxIDIdxes\<close>, in the order of
  the association list. \<^verbatim>\<open>BPTree.Insert\<close> and \<^verbatim>\<open>BPTree.WriteNodes\<close> are calls outside
  tx.go.\<close>

fun storeTxIDIdxes ::
  "64 word \<Rightarrow> bool \<Rightarrow> (64 word \<times> BPTree) list \<Rightarrow> DB
     \<Rightarrow> error option \<times> (64 word \<times> BPTree) list \<times> DB" where
  "storeTxIDIdxes txID countFlag [] d = (None, [], d)"
| "storeTxIDIdxes txID countFlag ((fID, txIDIdx) # rest) d =
     (case io_call d of
        (Some err, d1) \<Rightarrow> (Some err, (fID, txIDIdx) # rest, d1)
      | (None, d1) \<Rightarrow>
          let t1 = (bpt_Insert (TxIDItem txID) countFlag txIDIdx)\<lparr>bpt_Filepath := Some (BPTTxIDPath fID)\<rparr> in
          (case io_call d1 of
             (Some err, d2) \<Rightarrow> (Some err, (fID, t1) # rest, d2)
           | (None, d2) \<Rightarrow>
               let d3 = d2\<lparr>bptFiles := bptFiles d2 @ [t1]\<rparr> in
               (case io_call d3 of
                  (Some err, d4) \<Rightarrow> (Some err, (fID, t1) # rest, d4)
                | (None, d4) \<Rightarrow>
                    let txIDRootIdx =
                          (bpt_Insert RootAddrItem countFlag NewTree)\<lparr>bpt_Filepath := Some (BPTRootTxIDPath fID)\<rparr>
                    in
                    (case io_call d4 of
                       (Some err, d5) \<Rightarrow> (Some err, (fID, t1) # rest, d5)
                     | (None, d5) \<Rightarrow>
                         (case storeTxIDIdxes txID countFlag rest
                                 (d5\<lparr>bptFiles := bptFiles d5 @ [txIDRootIdx]\<rparr>) of
                            (r, rest', d6) \<Rightarrow> (r, (fID, t1) # rest', d6))))))"

definition buildTxIDRootIdx :: "64 word \<Rightarrow> bool \<Rightarrow> Tx \<Rightarrow> DB \<Rightarrow> error option \<times> Tx \<times> DB" where
  "buildTxIDRootIdx txID countFlag tx d =
     (case io_call d of
        (Some err, d1) \<Rightarrow> (Some err, tx, d1)
      | (None, d1) \<Rightarrow>
          let d2 = d1\<lparr>ActiveCommittedTxIdsIdx :=
                       bpt_Insert (TxIDItem txID) countFlag (ActiveCommittedTxIdsIdx d1)\<rparr>
          in
          if length (tx_ReservedStoreTxIDIdxes tx) > 0 then
            (case storeTxIDIdxes txID countFlag (tx_ReservedStoreTxIDIdxes tx) d2 of
               (r, idxes, d3) \<Rightarrow> (r, tx\<lparr>tx_ReservedStoreTxIDIdxes := idxes\<rparr>, d3))
          else (None, tx, d2))"

text \<open>Modelled from the spec: \<^verbatim>\<open>db.deleteBucket\<close> is declared outside tx.go; the spec has
  "removing the corresponding in-memory index for that bucket".\<close>

definition deleteBucket :: "ds \<Rightarrow> string \<Rightarrow> DB \<Rightarrow> DB" where
  "deleteBucket dsv bucket d =
     (case dsv of
        DataStructureTree \<Rightarrow> d\<lparr>BTreeIdx := (BTreeIdx d)(bucket := None)\<rparr>
      | DataStructureSet \<Rightarrow> d\<lparr>SetIdx := (SetIdx d)(bucket := None)\<rparr>
      | DataStructureSortedSet \<Rightarrow> d\<lparr>SortedSetIdx := (SortedSetIdx d)(bucket := None)\<rparr>
      | DataStructureList \<Rightarrow> d\<lparr>ListIdx := (ListIdx d)(bucket := None)\<rparr>
      | DataStructureNone \<Rightarrow> d)"

fun buildNotDSIdxes :: "Entry list \<Rightarrow> DB \<Rightarrow> DB" where
  "buildNotDSIdxes [] d = d"
| "buildNotDSIdxes (entry # es) d =
     (let bucket = Bucket entry;
          d1 = (if Ds (Meta entry) = DataStructureNone then
                  (let a = (if Flag (Meta entry) = DataBPTreeBucketDeleteFlag
                            then deleteBucket DataStructureTree bucket d else d);
                       b = (if Flag (Meta entry) = DataSetBucketDeleteFlag
                            then deleteBucket DataStructureSet bucket a else a);
                       c = (if Flag (Meta entry) = DataSortedSetBucketDeleteFlag
                            then deleteBucket DataStructureSortedSet bucket b else b)
                   in (if Flag (Meta entry) = DataListBucketDeleteFlag
                       then deleteBucket DataStructureList bucket c else c))
                else d)
      in buildNotDSIdxes es (d1\<lparr>KeyCount := KeyCount d1 + 1\<rparr>))"


text \<open>Modelled from the spec: \<^verbatim>\<open>db.resetRecordByMode\<close> is declared outside tx.go; the
  spec has "In key-and-RAM mode, values are retained in memory; otherwise values are
  dropped".\<close>

definition resetRecordByMode :: "DB \<Rightarrow> Record \<Rightarrow> Record" where
  "resetRecordByMode d r =
     (if EntryIdxMode (opt d) \<noteq> HintKeyValAndRAMIdxMode then r\<lparr>recV := None\<rparr> else r)"

text \<open>The expiry time of \<^verbatim>\<open>buildTreeIdx\<close> in milliseconds:
  \<^verbatim>\<open>time.UnixMilli(int64(Timestamp)).Add(time.Duration(TTL) * time.Second)\<close>.\<close>

definition expireTime :: "MetaData \<Rightarrow> int" where
  "expireTime meta = sint (Timestamp meta) + uint (TTL meta) * 1000"

text \<open>\<^verbatim>\<open>expireTime.Sub(now)\<close> in nanoseconds; \<^verbatim>\<open>Sub\<close> saturates at the largest
  \<^verbatim>\<open>Duration\<close>.\<close>

definition Sub :: "int \<Rightarrow> int \<Rightarrow> int" where
  "Sub t u = max (- (2 ^ 63)) (min (2 ^ 63 - 1) ((t - u) * 1000000))"

text \<open>\<^verbatim>\<open>buildTreeIdx\<close>. The TTL manager \<open>tm\<close> maps (bucket, key) to the delay of the
  scheduled deletion; the callback it would run is fixed by the bucket and the key. An
  error of \<^verbatim>\<open>ActiveBPTreeIdx.Insert\<close> is dropped by the source.\<close>

definition buildTreeIdx :: "extern \<Rightarrow> Record \<Rightarrow> bool \<Rightarrow> DB \<Rightarrow> DB" where
  "buildTreeIdx E record countFlag d =
     (let bucket = recBucket record;
          key = hKey (recH record);
          meta = hMeta (recH record);
          offset = hDataPos (recH record)
      in
      if EntryIdxMode (opt d) = HintBPTSparseIdxMode then
        (let newKey = getNewKey E bucket key;
             hint = \<lparr>hKey = newKey, hFileID = fileID (ActiveFile d), hMeta = meta, hDataPos = offset\<rparr>
         in
         (case io_call d of
            (Some err, d1) \<Rightarrow> d1
          | (None, d1) \<Rightarrow>
              d1\<lparr>ActiveBPTreeIdx := bpt_Insert (KeyItem newKey hint) countFlag (ActiveBPTreeIdx d1)\<rparr>))
      else
        (let d1 = (if BTreeIdx d bucket = None
                   then d\<lparr>BTreeIdx := (BTreeIdx d)(bucket \<mapsto> Map.empty)\<rparr> else d);
             hint = \<lparr>hKey = key, hFileID = fileID (ActiveFile d1), hMeta = meta, hDataPos = offset\<rparr>
         in
         if Flag meta = DataSetFlag then
           (let val = (if EntryIdxMode (opt d1) = HintKeyValAndRAMIdxMode then recV record else None);
                insert = (\<lambda>x. x\<lparr>BTreeIdx :=
                            (BTreeIdx x)(bucket \<mapsto> (case BTreeIdx x bucket of
                                                     None \<Rightarrow> Map.empty
                                                   | Some t \<Rightarrow> t)(key \<mapsto> (val, hint)))\<rparr>)
            in
            if TTL meta \<noteq> Persistent then
              (let now = clock d1;
                   expire = expireTime meta
               in
               if now > expire then d1
               else insert (d1\<lparr>tm := (tm d1)((bucket, key) \<mapsto> Sub expire now)\<rparr>))
            else insert (d1\<lparr>tm := (tm d1)((bucket, key) := None)\<rparr>))
         else if Flag meta = DataDeleteFlag then
           (let d2 = d1\<lparr>tm := (tm d1)((bucket, key) := None)\<rparr> in
            d2\<lparr>BTreeIdx :=
                 (BTreeIdx d2)(bucket \<mapsto> (case BTreeIdx d2 bucket of
                                           None \<Rightarrow> Map.empty
                                         | Some t \<Rightarrow> t)(key := None))\<rparr>)
         else d1))"

text \<open>How a builder or a step of the commit loop ends: it runs through, it makes
  \<^verbatim>\<open>Commit\<close> return an error, or it panics; each with the state reached
  (\<open>res_state\<close>).\<close>

datatype 'a res =
    Ok (res_state: 'a)
  | Err (res_error: error) (res_state: 'a)
  | Pan (res_state: 'a)

definition buildSetIdx :: "Record \<Rightarrow> DB \<Rightarrow> DB" where
  "buildSetIdx record d =
     (let bucket = recBucket record;
          key = hKey (recH record);
          val = recV record;
          meta = hMeta (recH record);
          record' = resetRecordByMode d record;
          d1 = (if SetIdx d bucket = None then d\<lparr>SetIdx := (SetIdx d)(bucket \<mapsto> [])\<rparr> else d);
          call = (\<lambda>c x. x\<lparr>SetIdx := (SetIdx x)(bucket \<mapsto> (case SetIdx x bucket of
                                                             None \<Rightarrow> [] | Some ops \<Rightarrow> ops) @ [c])\<rparr>);
          d2 = (if Flag meta = DataDeleteFlag then call (SRem key val) d1 else d1)
      in (if Flag meta = DataSetFlag then call (SAdd key val record') d2 else d2))"

text \<open>\<^verbatim>\<open>buildSortedSetIdx\<close>; indexing the result of \<^verbatim>\<open>strings.Split\<close> at 1 panics when
  the separator is missing.\<close>

definition buildSortedSetIdx :: "extern \<Rightarrow> Record \<Rightarrow> DB \<Rightarrow> DB res" where
  "buildSortedSetIdx E record d =
     (let bucket = recBucket record;
          key = hKey (recH record);
          val = recV record;
          meta = hMeta (recH record);
          record' = resetRecordByMode d record;
          d1 = (if SortedSetIdx d bucket = None
                then d\<lparr>SortedSetIdx := (SortedSetIdx d)(bucket \<mapsto> [])\<rparr> else d);
          call = (\<lambda>c x. x\<lparr>SortedSetIdx :=
                     (SortedSetIdx x)(bucket \<mapsto> (case SortedSetIdx x bucket of
                                                    None \<Rightarrow> [] | Some ops \<Rightarrow> ops) @ [c])\<rparr>)
      in
      (case Flag meta of
         DataZAddFlag \<Rightarrow>
           (case SplitZSetKey E key of
              k # score # _ \<Rightarrow> Ok (call (ZAdd k score val record') d1)
            | _ \<Rightarrow> Pan d1)
       | DataZRemFlag \<Rightarrow> Ok (call (ZRem key val) d1)
       | DataZRemRangeByRankFlag \<Rightarrow>
           (case SplitZSetKey E (bytes_of val) of
              start # end' # _ \<Rightarrow> Ok (call (ZRemRangeByRank key start end') d1)
            | _ \<Rightarrow> Pan d1)
       | DataZPopMaxFlag \<Rightarrow> Ok (call (ZPopMax key) d1)
       | DataZPopMinFlag \<Rightarrow> Ok (call (ZPopMin key) d1)
       | _ \<Rightarrow> Ok d1))"

definition buildListIdx :: "extern \<Rightarrow> Record \<Rightarrow> DB \<Rightarrow> DB res" where
  "buildListIdx E record d =
     (let bucket = recBucket record;
          key = hKey (recH record);
          val = recV record;
          meta = hMeta (recH record);
          record' = resetRecordByMode d record;
          d1 = (if ListIdx d bucket = None then d\<lparr>ListIdx := (ListIdx d)(bucket \<mapsto> [])\<rparr> else d);
          call = (\<lambda>c x. x\<lparr>ListIdx := (ListIdx x)(bucket \<mapsto> (case ListIdx x bucket of
                                                               None \<Rightarrow> [] | Some ops \<Rightarrow> ops) @ [c])\<rparr>)
      in
      if IsExpired E (TTL meta) (Timestamp meta) (clock d1) then Ok d1
      else
        (case Flag meta of
           DataExpireListFlag \<Rightarrow> Ok (call (ExpireList key val (Timestamp meta)) d1)
         | DataLPushFlag \<Rightarrow> Ok (call (LPush key record') d1)
         | DataRPushFlag \<Rightarrow> Ok (call (RPush key record') d1)
         | DataLRemFlag \<Rightarrow>
             (case SplitListKey E (bytes_of val) of
                count # newValue # _ \<Rightarrow> Ok (call (LRem key count newValue) d1)
              | _ \<Rightarrow> Pan d1)
         | DataLPopFlag \<Rightarrow> Ok (call (LPop key) d1)
         | DataRPopFlag \<Rightarrow> Ok (call (RPop key) d1)
         | DataLSetFlag \<Rightarrow>
             (case SplitListKey E key of
                newKey # index # _ \<Rightarrow> Ok (call (LSet newKey index record') d1)
              | _ \<Rightarrow> Pan d1)
         | DataLTrimFlag \<Rightarrow>
             (case SplitListKey E key of
                newKey # start # _ \<Rightarrow> Ok (call (LTrim newKey start val) d1)
              | _ \<Rightarrow> Pan d1)
         | DataLRemByIndex \<Rightarrow> Ok (call (LRemByIndex key val) d1)
         | _ \<Rightarrow> Ok d1))"


subsection \<open>Commit\<close>

text \<open>What the loop of \<^verbatim>\<open>Commit\<close> carries from one entry to the next: the transaction,
  the DB, the commit buffer \<^verbatim>\<open>buff\<close> and the scratch \<^verbatim>\<open>bucketMetaTemp\<close>.\<close>

record cst =
  c_tx :: Tx
  c_db :: DB
  c_buff :: "Entry list"
  c_bmt :: BucketMeta

definition allocCommitBuffer :: "extern \<Rightarrow> Tx \<Rightarrow> DB \<Rightarrow> Entry list" where
  "allocCommitBuffer E tx d =
     (let txSize = Len E (tx_pendingWrites tx) in
      if txSize < CommitBufferSize (opt d) then commitBuffer d else [])"

text \<open>Lines 274 to 292 of the loop body: the size check, and the flush and rotation when
  the entry does not fit.\<close>

definition Commit_rotate :: "extern \<Rightarrow> Entry \<Rightarrow> cst \<Rightarrow> cst res" where
  "Commit_rotate E entry st =
     (let entrySize = int (Size E entry) in
      if entrySize > SegmentSize (opt (c_db st)) then Err ErrDataSizeExceed st
      else if ActualSize (ActiveFile (c_db st)) + Len E (c_buff st) + entrySize
                > SegmentSize (opt (c_db st)) then
        (case writeData E (c_buff st) (c_db st) of
           (Some err, d1) \<Rightarrow> Err err (st\<lparr>c_db := d1\<rparr>)
         | (None, d1) \<Rightarrow>
             (case rotateActiveFile (c_tx st) d1 of
                (Some err, tx2, d2) \<Rightarrow> Err err (st\<lparr>c_tx := tx2, c_db := d2, c_buff := []\<rparr>)
              | (None, tx2, d2) \<Rightarrow> Ok (st\<lparr>c_tx := tx2, c_db := d2, c_buff := []\<rparr>)))
      else Ok st)"

text \<open>Line 300: the last entry is marked committed.\<close>

definition stamp :: "bool \<Rightarrow> Entry \<Rightarrow> Entry" where
  "stamp is_last entry =
     (if is_last then entry\<lparr>Meta := (Meta entry)\<lparr>Status := Committed\<rparr>\<rparr> else entry)"

text \<open>Lines 296 to 313: the position map, the encoding into the buffer (\<^verbatim>\<open>buff.Write\<close>
  of a \<^verbatim>\<open>bytes.Buffer\<close> returns no error) and, for the last entry, the write of the
  buffer. \<open>entry\<close> is the entry as stamped.\<close>

definition Commit_encode :: "extern \<Rightarrow> bool \<Rightarrow> Entry \<Rightarrow> int \<Rightarrow> cst \<Rightarrow> cst res" where
  "Commit_encode E is_last entry offset st =
     (let d = c_db st;
          d1 = (if Ds (Meta entry) = DataStructureTree
                then d\<lparr>BPTreeKeyEntryPosMap :=
                        (BPTreeKeyEntryPosMap d)(getNewKey E (Bucket entry) (Key entry) \<mapsto> offset)\<rparr>
                else d);
          buff = c_buff st @ [entry]
      in
      if is_last then
        (case writeData E buff d1 of
           (Some err, d2) \<Rightarrow> Err err (st\<lparr>c_db := d2, c_buff := buff\<rparr>)
         | (None, d2) \<Rightarrow> Ok (st\<lparr>c_db := d2, c_buff := buff\<rparr>))
      else Ok (st\<lparr>c_db := d1, c_buff := buff\<rparr>))"

text \<open>Lines 315 to 351: the sparse-mode bookkeeping and the index builder of the entry's
  data structure.\<close>

definition Commit_index :: "extern \<Rightarrow> bool \<Rightarrow> bool \<Rightarrow> Entry \<Rightarrow> int \<Rightarrow> cst \<Rightarrow> cst res" where
  "Commit_index E countFlag is_last entry offset st =
     (let bucket = Bucket entry;
          sparse = (EntryIdxMode (opt (c_db st)) = HintBPTSparseIdxMode);
          st1 = (if sparse
                 then st\<lparr>c_bmt := buildTempBucketMetaIdx bucket (Key entry) (c_bmt st)\<rparr> else st);
          r2 = (if is_last \<and> sparse then
                  (case buildTxIDRootIdx (TxID (Meta entry)) countFlag (c_tx st1) (c_db st1) of
                     (Some err, tx', d') \<Rightarrow> Err err (st1\<lparr>c_tx := tx', c_db := d'\<rparr>)
                   | (None, tx', d') \<Rightarrow>
                       (case buildBucketMetaIdx bucket (Key entry) (c_bmt st1) d' of
                          (Some err, d'') \<Rightarrow> Err err (st1\<lparr>c_tx := tx', c_db := d''\<rparr>)
                        | (None, d'') \<Rightarrow> Ok (st1\<lparr>c_tx := tx', c_db := d''\<rparr>)))
                else Ok st1)
      in
      (case r2 of
         Ok st2 \<Rightarrow>
           (let hint = \<lparr>hKey = Key entry, hFileID = fileID (ActiveFile (c_db st2)),
                        hMeta = Meta entry, hDataPos = word_of_int offset\<rparr>;
                record = \<lparr>recH = hint, recV = Some (Value entry), recBucket = bucket\<rparr>;
                d3 = (if Ds (Meta entry) = DataStructureTree
                      then buildTreeIdx E record countFlag (c_db st2) else c_db st2);
                r4 = (if Ds (Meta entry) = DataStructureList
                      then buildListIdx E record d3 else Ok d3)
            in
            (case r4 of
               Ok d4 \<Rightarrow>
                 (let d5 = (if Ds (Meta entry) = DataStructureSet
                            then buildSetIdx record d4 else d4)
                  in
                  (case (if Ds (Meta entry) = DataStructureSortedSet
                         then buildSortedSetIdx E record d5 else Ok d5) of
                     Ok d6 \<Rightarrow> Ok (st2\<lparr>c_db := d6\<rparr>)
                   | Err err d6 \<Rightarrow> Err err (st2\<lparr>c_db := d6\<rparr>)
                   | Pan d6 \<Rightarrow> Pan (st2\<lparr>c_db := d6\<rparr>)))
             | Err err d4 \<Rightarrow> Err err (st2\<lparr>c_db := d4\<rparr>)
             | Pan d4 \<Rightarrow> Pan (st2\<lparr>c_db := d4\<rparr>)))
       | Err err st2 \<Rightarrow> Err err st2
       | Pan st2 \<Rightarrow> Pan st2))"

text \<open>One pass of the loop body for \<^verbatim>\<open>entry := tx.pendingWrites[i]\<close>; \<open>is_last\<close> is
  \<^verbatim>\<open>i == lastIndex\<close>.\<close>

definition Commit_entry :: "extern \<Rightarrow> bool \<Rightarrow> bool \<Rightarrow> Entry \<Rightarrow> cst \<Rightarrow> cst res" where
  "Commit_entry E countFlag is_last entry st =
     (case Commit_rotate E entry st of
        Ok st1 \<Rightarrow>
          (let offset = writeOff (ActiveFile (c_db st1)) + Len E (c_buff st1);
               entry' = stamp is_last entry
           in
           (case Commit_encode E is_last entry' offset st1 of
              Ok st2 \<Rightarrow> Commit_index E countFlag is_last entry' offset st2
            | Err err st2 \<Rightarrow> Err err st2
            | Pan st2 \<Rightarrow> Pan st2))
      | Err err st1 \<Rightarrow> Err err st1
      | Pan st1 \<Rightarrow> Pan st1)"

text \<open>The loop \<^verbatim>\<open>for i := 0; i < writesLen; i++\<close> over the entries still to be written.
  \<open>followed\<close> says that further entries of \<^verbatim>\<open>pendingWrites\<close> come after the list;
  \<^verbatim>\<open>Commit\<close> runs it on all of \<^verbatim>\<open>pendingWrites\<close> with \<open>followed = False\<close>, so that the
  last entry of the list is the one at \<^verbatim>\<open>lastIndex\<close>.\<close>

fun Commit_entries :: "extern \<Rightarrow> bool \<Rightarrow> bool \<Rightarrow> Entry list \<Rightarrow> cst \<Rightarrow> cst res" where
  "Commit_entries E countFlag followed [] st = Ok st"
| "Commit_entries E countFlag followed (entry # es) st =
     (case Commit_entry E countFlag (es = [] \<and> \<not> followed) entry st of
        Ok st1 \<Rightarrow> Commit_entries E countFlag followed es st1
      | Err err st1 \<Rightarrow> Err err st1
      | Pan st1 \<Rightarrow> Pan st1)"

text \<open>The deferred function declared first in \<^verbatim>\<open>Commit\<close> (it runs last): the error
  handler, the release of the lock, the clearing of the fields.\<close>

definition Commit_cleanup :: "error option \<Rightarrow> Tx \<Rightarrow> DB \<Rightarrow> unit outcome \<times> Tx \<times> DB" where
  "Commit_cleanup err tx d =
     (case (case err of Some e \<Rightarrow> handleErr e tx d | None \<Rightarrow> Return d) of
        Panic \<Rightarrow> (Panic, tx, d)
      | Return d1 \<Rightarrow>
          (case unlock tx d1 of
             Panic \<Rightarrow> (Panic, tx, d1)
           | Return d2 \<Rightarrow>
               (Return (),
                tx\<lparr>tx_db := None, tx_pendingWrites := [], tx_ReservedStoreTxIDIdxes := []\<rparr>,
                d2)))"

text \<open>Leaving \<^verbatim>\<open>Commit\<close>: the deferred function runs whether the body returned or
  panicked; after a panic of the body \<^verbatim>\<open>err\<close> is still nil and the panic goes on.\<close>

definition Commit_exit ::
  "error option outcome \<Rightarrow> Tx \<Rightarrow> DB \<Rightarrow> error option outcome \<times> Tx \<times> DB" where
  "Commit_exit r tx d =
     (case r of
        Return err \<Rightarrow>
          (case Commit_cleanup err tx d of
             (Return _, tx', d') \<Rightarrow> (Return err, tx', d')
           | (Panic, tx', d') \<Rightarrow> (Panic, tx', d'))
      | Panic \<Rightarrow>
          (case Commit_cleanup None tx d of
             (_, tx', d') \<Rightarrow> (Panic, tx', d')))"

text \<open>The state in which the loop starts: \<^verbatim>\<open>buff := tx.allocCommitBuffer()\<close> and the
  zero value of \<^verbatim>\<open>bucketMetaTemp\<close>.\<close>

definition Commit_init :: "extern \<Rightarrow> Tx \<Rightarrow> DB \<Rightarrow> cst" where
  "Commit_init E tx d =
     \<lparr>c_tx = tx, c_db = d, c_buff = allocCommitBuffer E tx d,
      c_bmt = \<lparr>bm_start = None, bm_end = None, bm_startSize = 0, bm_endSize = 0\<rparr>\<rparr>"

text \<open>\<^verbatim>\<open>Commit\<close>. \<^verbatim>\<open>countFlag\<close> is \<^verbatim>\<open>CountFlagEnabled\<close> (true) unless the DB is merging.
  The deferred \<^verbatim>\<open>commitBuffer.Reset()\<close> and \<^verbatim>\<open>setStatusClosed()\<close> are registered after
  the checks and run before the cleanup. The mark that line 301 puts on the last entry
  through its pointer is seen afterwards only by \<^verbatim>\<open>buildNotDSIdxes\<close>, which reads
  \<^verbatim>\<open>Ds\<close> and \<^verbatim>\<open>Flag\<close> alone.\<close>

definition Commit :: "extern \<Rightarrow> Tx \<Rightarrow> DB \<Rightarrow> error option outcome \<times> Tx \<times> DB" where
  "Commit E tx d =
     (if isClosed tx then Commit_exit (Return (Some ErrCannotCommitAClosedTx)) tx d
      else if tx_db tx = None then Commit_exit (Return (Some ErrDBClosed)) (setStatusClosed tx) d
      else
        let tx1 = setStatusCommitting tx;
            writesLen = length (tx_pendingWrites tx1)
        in
        if writesLen = 0 then Commit_exit (Return None) (setStatusClosed tx1) d
        else
          let countFlag = (\<not> isMerging d);
              st0 = Commit_init E tx1 d
          in
          (case Commit_entries E countFlag False (tx_pendingWrites tx1) st0 of
             Ok st \<Rightarrow>
               Commit_exit (Return None) (setStatusClosed (c_tx st))
                 ((buildNotDSIdxes (tx_pendingWrites tx1) (c_db st))\<lparr>commitBuffer := []\<rparr>)
           | Err err st \<Rightarrow>
               Commit_exit (Return (Some err)) (setStatusClosed (c_tx st))
                 ((c_db st)\<lparr>commitBuffer := []\<rparr>)
           | Pan st \<Rightarrow>
               Commit_exit Panic (setStatusClosed (c_tx st)) ((c_db st)\<lparr>commitBuffer := []\<rparr>)))"


subsection \<open>Vocabulary of the theorems\<close>

text \<open>Parts of the DB and of the transaction that groups of functions leave alone: the
  options, the trace, the clock and the merge flag; the segment files; the in-memory
  indexes of the default modes; the fields of the transaction other than
  \<^verbatim>\<open>ReservedStoreTxIDIdxes\<close>.\<close>

definition dfix :: "DB \<Rightarrow> Options \<times> event list \<times> int \<times> bool" where
  "dfix d = (opt d, trace d, clock d, isMerging d)"

definition dfiles :: "DB \<Rightarrow> DataFile \<times> DataFile list \<times> 64 word" where
  "dfiles d = (ActiveFile d, released d, MaxFileID d)"

definition didx ::
  "DB \<Rightarrow> (string \<rightharpoonup> BTree) \<times> ((string \<times> string) \<rightharpoonup> int) \<times> (string \<rightharpoonup> set_op list)
     \<times> (string \<rightharpoonup> zset_op list) \<times> (string \<rightharpoonup> list_op list) \<times> int" where
  "didx d = (BTreeIdx d, tm d, SetIdx d, SortedSetIdx d, ListIdx d, KeyCount d)"

definition tfix :: "Tx \<Rightarrow> 64 word \<times> unit option \<times> bool \<times> tx_status \<times> Entry list \<times> int" where
  "tfix tx = (tx_id tx, tx_db tx, tx_writable tx, tx_status tx, tx_pendingWrites tx, tx_size tx)"

text \<open>Everything written to the segment files, oldest file first: position and entry.\<close>

definition seg_writes :: "DB \<Rightarrow> (int \<times> Entry) list" where
  "seg_writes d = concat (map content (released d @ [ActiveFile d]))"

definition seg_log :: "DB \<Rightarrow> Entry list" where
  "seg_log d = map snd (seg_writes d)"

text \<open>No entry of a segment file ends beyond \<^verbatim>\<open>SegmentSize\<close>.\<close>

definition seg_ok :: "extern \<Rightarrow> DB \<Rightarrow> bool" where
  "seg_ok E d = list_all (\<lambda>w. fst w + int (Size E (snd w)) \<le> SegmentSize (opt d)) (seg_writes d)"

text \<open>The file ids of the segments, oldest first, increase strictly (in the signed order of
  \<^verbatim>\<open>int64\<close>), and none exceeds \<^verbatim>\<open>MaxFileID\<close>.\<close>

definition ids_increasing :: "DB \<Rightarrow> bool" where
  "ids_increasing d =
     (sorted_wrt (\<lambda>a b. a <s b) (map fileID (released d @ [ActiveFile d]))
      \<and> fileID (ActiveFile d) \<le>s MaxFileID d)"

text \<open>A client's calls of the two functions through which every write operation of a
  transaction goes, \<^verbatim>\<open>put\<close> and \<^verbatim>\<open>putDeleteLog\<close>, run in order; a call of
  \<^verbatim>\<open>put\<close> that returns an error leaves the transaction as it was.\<close>

datatype write_call =
    CallPut string string string "32 word" flag "64 word" ds
  | CallPutDeleteLog string string string "32 word" flag "64 word" ds

fun run_writes :: "extern \<Rightarrow> write_call list \<Rightarrow> Tx \<Rightarrow> Tx" where
  "run_writes E [] tx = tx"
| "run_writes E (CallPut bucket key val ttl flg ts dsv # cs) tx =
     run_writes E cs (snd (put E bucket key val ttl flg ts dsv tx))"
| "run_writes E (CallPutDeleteLog bucket key val ttl flg ts dsv # cs) tx =
     run_writes E cs (putDeleteLog E bucket key val ttl flg ts dsv tx)"

subsection \<open>A concrete database for the scenarios\<close>

text \<open>Collaborators for the scenarios: an entry takes 42 bytes of header and its three
  byte strings, an empty key is invalid, and the separators do not occur.\<close>

definition demoE :: extern where
  "demoE = \<lparr>Size = (\<lambda>e. 42 + length (Bucket e) + length (Key e) + length (Value e)),
            valid = (\<lambda>e. if Key e = [] then Some ErrKeyEmpty else None),
            IsExpired = (\<lambda>ttl ts now. ttl \<noteq> 0 \<and> sint ts + uint ttl * 1000 < now),
            getNewKey = (\<lambda>b k. b @ k),
            SplitZSetKey = (\<lambda>s. [s]),
            SplitListKey = (\<lambda>s. [s])\<rparr>"

text \<open>An empty database with segments of 128 bytes, at clock 5000, and a running writable
  transaction on it.\<close>

definition demoDB :: DB where
  "demoDB =
     \<lparr>opt = \<lparr>SegmentSize = 128, CommitBufferSize = 4096, EntryIdxMode = HintKeyAndRAMIdxMode,
             SyncEnable = False, RWMode = FileIO, MaxBatchCount = 2, MaxBatchSize = 1000,
             ErrorHandler = True\<rparr>,
      ActiveFile = \<lparr>fileID = 0, writeOff = 0, ActualSize = 0, content = []\<rparr>,
      MaxFileID = 0, isMerging = False, commitBuffer = [],
      BTreeIdx = Map.empty, tm = Map.empty, SetIdx = Map.empty, SortedSetIdx = Map.empty,
      ListIdx = Map.empty, BPTreeKeyEntryPosMap = Map.empty, ActiveBPTreeIdx = NewTree,
      BPTreeRootIdxes = [], ActiveCommittedTxIdsIdx = NewTree, bucketMetas = Map.empty,
      KeyCount = 0, released = [], bptFiles = [], bucketMetaFiles = Map.empty,
      io = [], clock = 5000, trace = []\<rparr>"

definition demoTx :: Tx where
  "demoTx = \<lparr>tx_id = 7, tx_db = Some (), tx_writable = True, tx_status = txStatusRunning,
              tx_pendingWrites = [], tx_ReservedStoreTxIDIdxes = [], tx_size = 0\<rparr>"

text \<open>A value of 36 bytes: with a bucket of one byte and a key of one byte the entry
  takes 80 bytes.\<close>

definition v36 :: string where
  "v36 = replicate 36 (CHR ''v'')"

text \<open>Two entries of 80 bytes each written to bucket \<open>b\<close>.\<close>

definition demoTx2 :: Tx where
  "demoTx2 =
     run_writes demoE
       [CallPut ''b'' ''a'' v36 0 DataSetFlag 1000 DataStructureTree,
        CallPut ''b'' ''c'' v36 0 DataSetFlag 1000 DataStructureTree] demoTx"

text \<open>One entry with a time to live of one second, stamped at 4000 or at 3000: it
  expires at 5000, the time of the clock, or at 4000, before it.\<close>

definition demoTxTTL :: "64 word \<Rightarrow> Tx" where
  "demoTxTTL ts =
     run_writes demoE [CallPut ''b'' ''a'' v36 1 DataSetFlag ts DataStructureTree] demoTx"

text \<open>One entry of 144 bytes, more than a segment holds.\<close>

definition demoTxBig :: Tx where
  "demoTxBig =
     run_writes demoE
       [CallPut ''b'' ''a'' (replicate 100 (CHR ''v'')) 0 DataSetFlag 1000 DataStructureTree] demoTx"


section \<open>What the functions leave unchanged\<close>

lemma dfix_upd [simp]:
  "dfix (d\<lparr>ActiveFile := a1\<rparr>) = dfix d"
  "dfix (d\<lparr>MaxFileID := a2\<rparr>) = dfix d"
  "dfix (d\<lparr>commitBuffer := a3\<rparr>) = dfix d"
  "dfix (d\<lparr>BTreeIdx := a4\<rparr>) = dfix d"
  "dfix (d\<lparr>tm := a5\<rparr>) = dfix d"
  "dfix (d\<lparr>SetIdx := a6\<rparr>) = dfix d"
  "dfix (d\<lparr>SortedSetIdx := a7\<rparr>) = dfix d"
  "dfix (d\<lparr>ListIdx := a8\<rparr>) = dfix d"
  "dfix (d\<lparr>BPTreeKeyEntryPosMap := a9\<rparr>) = dfix d"
  "dfix (d\<lparr>ActiveBPTreeIdx := a10\<rparr>) = dfix d"
  "dfix (d\<lparr>BPTreeRootIdxes := a11\<rparr>) = dfix d"
  "dfix (d\<lparr>ActiveCommittedTxIdsIdx := a12\<rparr>) = dfix d"
  "dfix (d\<lparr>bucketMetas := a13\<rparr>) = dfix d"
  "dfix (d\<lparr>KeyCount := a14\<rparr>) = dfix d"
  "dfix (d\<lparr>released := a15\<rparr>) = dfix d"
  "dfix (d\<lparr>bptFiles := a16\<rparr>) = dfix d"
  "dfix (d\<lparr>bucketMetaFiles := a17\<rparr>) = dfix d"
  "dfix (d\<lparr>io := a18\<rparr>) = dfix d"
  by (simp_all add: dfix_def)

lemma dfiles_upd [simp]:
  "dfiles (d\<lparr>commitBuffer := a3\<rparr>) = dfiles d"
  "dfiles (d\<lparr>BTreeIdx := a4\<rparr>) = dfiles d"
  "dfiles (d\<lparr>tm := a5\<rparr>) = dfiles d"
  "dfiles (d\<lparr>SetIdx := a6\<rparr>) = dfiles d"
  "dfiles (d\<lparr>SortedSetIdx := a7\<rparr>) = dfiles d"
  "dfiles (d\<lparr>ListIdx := a8\<rparr>) = dfiles d"
  "dfiles (d\<lparr>BPTreeKeyEntryPosMap := a9\<rparr>) = dfiles d"
  "dfiles (d\<lparr>ActiveBPTreeIdx := a10\<rparr>) = dfiles d"
  "dfiles (d\<lparr>BPTreeRootIdxes := a11\<rparr>) = dfiles d"
  "dfiles (d\<lparr>ActiveCommittedTxIdsIdx := a12\<rparr>) = dfiles d"
  "dfiles (d\<lparr>bucketMetas := a13\<rparr>) = dfiles d"
  "dfiles (d\<lparr>KeyCount := a14\<rparr>) = dfiles d"
  "dfiles (d\<lparr>bptFiles := a16\<rparr>) = dfiles d"
  "dfiles (d\<lparr>bucketMetaFiles := a17\<rparr>) = dfiles d"
  "dfiles (d\<lparr>io := a18\<rparr>) = dfiles d"
  "dfiles (d\<lparr>trace := a19\<rparr>) = dfiles d"
  by (simp_all add: dfiles_def)

lemma didx_upd [simp]:
  "didx (d\<lparr>ActiveFile := a1\<rparr>) = didx d"
  "didx (d\<lparr>MaxFileID := a2\<rparr>) = didx d"
  "didx (d\<lparr>commitBuffer := a3\<rparr>) = didx d"
  "didx (d\<lparr>BPTreeKeyEntryPosMap := a9\<rparr>) = didx d"
  "didx (d\<lparr>ActiveBPTreeIdx := a10\<rparr>) = didx d"
  "didx (d\<lparr>BPTreeRootIdxes := a11\<rparr>) = didx d"
  "didx (d\<lparr>ActiveCommittedTxIdsIdx := a12\<rparr>) = didx d"
  "didx (d\<lparr>bucketMetas := a13\<rparr>) = didx d"
  "didx (d\<lparr>released := a15\<rparr>) = didx d"
  "didx (d\<lparr>bptFiles := a16\<rparr>) = didx d"
  "didx (d\<lparr>bucketMetaFiles := a17\<rparr>) = didx d"
  "didx (d\<lparr>io := a18\<rparr>) = didx d"
  "didx (d\<lparr>trace := a19\<rparr>) = didx d"
  by (simp_all add: didx_def)

lemma tfix_upd [simp]:
  "tfix (tx\<lparr>tx_ReservedStoreTxIDIdxes := r\<rparr>) = tfix tx"
  by (simp add: tfix_def)

lemma io_call_frame [simp]:
  "dfix (snd (io_call d)) = dfix d"
  "dfiles (snd (io_call d)) = dfiles d"
  "didx (snd (io_call d)) = didx d"
  by (simp_all add: io_call_def)

lemma writeData_frame [simp]:
  "dfix (snd (writeData E data d)) = dfix d"
  "didx (snd (writeData E data d)) = didx d"
  by (simp_all add: writeData_def Let_def split_beta split: option.splits)

lemma rotate_sparse_frame [simp]:
  "dfix (snd (snd (rotate_sparse fID tx d))) = dfix d"
  "dfiles (snd (snd (rotate_sparse fID tx d))) = dfiles d"
  "didx (snd (snd (rotate_sparse fID tx d))) = didx d"
  "tfix (fst (snd (rotate_sparse fID tx d))) = tfix tx"
  by (simp_all add: rotate_sparse_def Let_def split_beta split: option.splits)

lemma rotateActiveFile_frame [simp]:
  "dfix (snd (snd (rotateActiveFile tx d))) = dfix d"
  "didx (snd (snd (rotateActiveFile tx d))) = didx d"
  "tfix (fst (snd (rotateActiveFile tx d))) = tfix tx"
  by (simp_all add: rotateActiveFile_def Let_def split_beta split: option.splits)

lemma storeBucketMeta_frame [simp]:
  "dfix (snd (storeBucketMeta b m d)) = dfix d"
  "dfiles (snd (storeBucketMeta b m d)) = dfiles d"
  by (simp_all add: storeBucketMeta_def Let_def split_beta split: option.splits)

lemma buildBucketMetaIdx_frame [simp]:
  "dfix (snd (buildBucketMetaIdx b k m d)) = dfix d"
  "dfiles (snd (buildBucketMetaIdx b k m d)) = dfiles d"
  by (simp_all add: buildBucketMetaIdx_def Let_def split: option.splits)

lemma storeTxIDIdxes_dfix [simp]: "dfix (snd (snd (storeTxIDIdxes t cf xs d))) = dfix d"
proof (induction xs arbitrary: d)
  case Nil
  then show ?case by simp
next
  case (Cons a xs)
  then show ?case by (cases a) (simp add: Let_def split_beta split: option.splits)
qed

lemma storeTxIDIdxes_dfiles [simp]: "dfiles (snd (snd (storeTxIDIdxes t cf xs d))) = dfiles d"
proof (induction xs arbitrary: d)
  case Nil
  then show ?case by simp
next
  case (Cons a xs)
  then show ?case by (cases a) (simp add: Let_def split_beta split: option.splits)
qed

lemma buildTxIDRootIdx_frame [simp]:
  "dfix (snd (snd (buildTxIDRootIdx t cf tx d))) = dfix d"
  "dfiles (snd (snd (buildTxIDRootIdx t cf tx d))) = dfiles d"
  "tfix (fst (snd (buildTxIDRootIdx t cf tx d))) = tfix tx"
  by (simp_all add: buildTxIDRootIdx_def Let_def split_beta split: option.splits)

lemma buildTreeIdx_frame [simp]:
  "dfix (buildTreeIdx E r cf d) = dfix d"
  "dfiles (buildTreeIdx E r cf d) = dfiles d"
  by (simp_all add: buildTreeIdx_def Let_def split_beta split: option.splits)

lemma buildSetIdx_frame [simp]:
  "dfix (buildSetIdx r d) = dfix d"
  "dfiles (buildSetIdx r d) = dfiles d"
  by (simp_all add: buildSetIdx_def Let_def)

lemma buildSortedSetIdx_dfix [simp]: "dfix (res_state (buildSortedSetIdx E r d)) = dfix d"
  by (cases "Flag (hMeta (recH r))") (simp_all add: buildSortedSetIdx_def Let_def split: list.splits)

lemma buildSortedSetIdx_dfiles [simp]: "dfiles (res_state (buildSortedSetIdx E r d)) = dfiles d"
  by (cases "Flag (hMeta (recH r))") (simp_all add: buildSortedSetIdx_def Let_def split: list.splits)

lemma buildListIdx_dfix [simp]: "dfix (res_state (buildListIdx E r d)) = dfix d"
  by (cases "Flag (hMeta (recH r))") (simp_all add: buildListIdx_def Let_def split: list.splits)

lemma buildListIdx_dfiles [simp]: "dfiles (res_state (buildListIdx E r d)) = dfiles d"
  by (cases "Flag (hMeta (recH r))") (simp_all add: buildListIdx_def Let_def split: list.splits)

lemma buildNotDSIdxes_frame [simp]:
  "dfix (buildNotDSIdxes es d) = dfix d"
  "dfiles (buildNotDSIdxes es d) = dfiles d"
  by (induction es arbitrary: d) (simp_all add: Let_def deleteBucket_def)

text \<open>The list and sorted-set builders run through or panic; they return no error.\<close>

lemma buildSortedSetIdx_no_Err: "buildSortedSetIdx E r d \<noteq> Err e s"
  by (cases "Flag (hMeta (recH r))") (simp_all add: buildSortedSetIdx_def Let_def split: list.splits)

lemma buildListIdx_no_Err: "buildListIdx E r d \<noteq> Err e s"
  by (cases "Flag (hMeta (recH r))") (simp_all add: buildListIdx_def Let_def split: list.splits)

lemma Commit_rotate_frame [simp]:
  "dfix (c_db (res_state (Commit_rotate E e st))) = dfix (c_db st)"
  "didx (c_db (res_state (Commit_rotate E e st))) = didx (c_db st)"
  "tfix (c_tx (res_state (Commit_rotate E e st))) = tfix (c_tx st)"
  "c_bmt (res_state (Commit_rotate E e st)) = c_bmt st"
  by (simp_all add: Commit_rotate_def Let_def split_beta split: option.splits)

lemma Commit_encode_frame [simp]:
  "dfix (c_db (res_state (Commit_encode E l e off st))) = dfix (c_db st)"
  "didx (c_db (res_state (Commit_encode E l e off st))) = didx (c_db st)"
  "c_tx (res_state (Commit_encode E l e off st)) = c_tx st"
  "c_bmt (res_state (Commit_encode E l e off st)) = c_bmt st"
  "c_buff (res_state (Commit_encode E l e off st)) = c_buff st @ [e]"
  by (simp_all add: Commit_encode_def Let_def split_beta split: option.splits)

lemma Commit_index_frame [simp]:
  "dfix (c_db (res_state (Commit_index E cf l e off st))) = dfix (c_db st)"
  "dfiles (c_db (res_state (Commit_index E cf l e off st))) = dfiles (c_db st)"
  "tfix (c_tx (res_state (Commit_index E cf l e off st))) = tfix (c_tx st)"
  "c_buff (res_state (Commit_index E cf l e off st)) = c_buff st"
  by (simp_all add: Commit_index_def Let_def split_beta res.case_eq_if split: option.splits)

lemma Commit_entry_frame [simp]:
  "dfix (c_db (res_state (Commit_entry E cf l e st))) = dfix (c_db st)"
  "tfix (c_tx (res_state (Commit_entry E cf l e st))) = tfix (c_tx st)"
  by (simp_all add: Commit_entry_def Let_def res.case_eq_if)

lemma Commit_entries_frame [simp]:
  "dfix (c_db (res_state (Commit_entries E cf fl es st))) = dfix (c_db st)"
  "tfix (c_tx (res_state (Commit_entries E cf fl es st))) = tfix (c_tx st)"
  by (induction es arbitrary: st) (simp_all add: res.case_eq_if)


section \<open>Leaving Commit\<close>

lemma dfix_eqD:
  "dfix a = dfix b \<Longrightarrow> opt a = opt b \<and> trace a = trace b \<and> clock a = clock b \<and> isMerging a = isMerging b"
  by (simp add: dfix_def)

lemma tfix_eqD:
  "tfix a = tfix b \<Longrightarrow> tx_id a = tx_id b \<and> tx_db a = tx_db b \<and> tx_writable a = tx_writable b
     \<and> tx_status a = tx_status b \<and> tx_pendingWrites a = tx_pendingWrites b \<and> tx_size a = tx_size b"
  by (simp add: tfix_def)

lemma Commit_exit_attached:
  "tx_db tx = Some () \<Longrightarrow>
   Commit_exit (Return err) tx d =
     (Return err,
      tx\<lparr>tx_db := None, tx_pendingWrites := [], tx_ReservedStoreTxIDIdxes := []\<rparr>,
      d\<lparr>trace := trace d @ (case err of Some e \<Rightarrow> if ErrorHandler (opt d) then [EvHandleError e] else []
                               | None \<Rightarrow> [])
                   @ [if tx_writable tx then EvUnlock else EvRUnlock]\<rparr>)"
  by (cases err) (simp_all add: Commit_exit_def Commit_cleanup_def handleErr_def unlock_def)

lemma Commit_exit_detached:
  "tx_db tx = None \<Longrightarrow> Commit_exit r tx d = (Panic, tx, d)"
  by (cases r) (auto simp: Commit_exit_def Commit_cleanup_def handleErr_def unlock_def split: option.splits)

lemma Commit_exit_Panic:
  "fst (Commit_exit Panic tx d) = Panic"
  by (simp add: Commit_exit_def split_beta)

lemma Commit_loop_tx:
  "tfix (c_tx (res_state (Commit_entries E cf fl es (Commit_init E tx d)))) = tfix tx"
  "dfix (c_db (res_state (Commit_entries E cf fl es (Commit_init E tx d)))) = dfix d"
  by (simp_all add: Commit_init_def)

lemma Commit_running:
  assumes "tx_status tx \<noteq> txStatusClosed" "tx_db tx = Some ()" "tx_pendingWrites tx \<noteq> []"
  shows "Commit E tx d =
     (let r0 = Commit_entries E (\<not> isMerging d) False (tx_pendingWrites tx)
                 (Commit_init E (setStatusCommitting tx) d);
          st = res_state r0
      in
      ((case r0 of Ok _ \<Rightarrow> Return None | Err e _ \<Rightarrow> Return (Some e) | Pan _ \<Rightarrow> Panic),
       (c_tx st)\<lparr>tx_status := txStatusClosed, tx_db := None, tx_pendingWrites := [],
                 tx_ReservedStoreTxIDIdxes := []\<rparr>,
       (if is_Ok r0 then buildNotDSIdxes (tx_pendingWrites tx) (c_db st) else c_db st)
         \<lparr>commitBuffer := [],
          trace := trace d @ (case r0 of Err e _ \<Rightarrow> if ErrorHandler (opt d) then [EvHandleError e] else []
                               | _ \<Rightarrow> [])
                   @ [if tx_writable tx then EvUnlock else EvRUnlock]\<rparr>))"
proof -
  let ?tx1 = "setStatusCommitting tx"
  let ?r0 = "Commit_entries E (\<not> isMerging d) False (tx_pendingWrites tx) (Commit_init E ?tx1 d)"
  let ?st = "res_state ?r0"
  have t: "tfix (c_tx ?st) = tfix ?tx1" and f: "dfix (c_db ?st) = dfix d"
    by (rule Commit_loop_tx)+
  have tx: "tx_db (c_tx ?st) = Some ()" "tx_writable (c_tx ?st) = tx_writable tx"
    using tfix_eqD[OF t] assms by (simp_all add: setStatusCommitting_def)
  have db: "opt (c_db ?st) = opt d" "trace (c_db ?st) = trace d"
    using dfix_eqD[OF f] by simp_all
  have db2: "opt (buildNotDSIdxes (tx_pendingWrites tx) (c_db ?st)) = opt d"
     "trace (buildNotDSIdxes (tx_pendingWrites tx) (c_db ?st)) = trace d"
    using dfix_eqD[of "buildNotDSIdxes (tx_pendingWrites tx) (c_db ?st)" d] f by simp_all
  have pw: "tx_pendingWrites ?tx1 = tx_pendingWrites tx" by (simp add: setStatusCommitting_def)
  show ?thesis
  proof (cases ?r0)
    case (Ok s)
    then show ?thesis using assms tx db db2 pw
      by (simp add: Commit_def isClosed_def Let_def Commit_exit_attached setStatusClosed_def)
  next
    case (Err e s)
    then show ?thesis using assms tx db db2 pw
      by (simp add: Commit_def isClosed_def Let_def Commit_exit_attached setStatusClosed_def)
  next
    case (Pan s)
    then show ?thesis using assms tx db db2 pw
      by (simp add: Commit_def isClosed_def Let_def Commit_exit_def Commit_cleanup_def unlock_def setStatusClosed_def)
  qed
qed


section \<open>The concrete scenarios\<close>

text \<open>The definitions that the concrete scenarios unfold.\<close>

lemmas demo_defs = demoE_def demoDB_def demoTx_def demoTx2_def demoTxBig_def v36_def
  put_def checkTxIsClosed_def newEntry_def NewTree_def

lemmas commit_defs = Commit_def Commit_init_def Commit_exit_def Commit_cleanup_def
  Commit_entry_def Commit_rotate_def Commit_encode_def Commit_index_def stamp_def
  writeData_def rotateActiveFile_def io_call_def Len_def allocCommitBuffer_def
  buildTreeIdx_def isClosed_def setStatusClosed_def setStatusCommitting_def
  unlock_def handleErr_def Persistent_def getDataFile_def Let_def

lemma Commit_demoTx2_ok: "fst (Commit demoE demoTx2 demoDB) = Return None"
  by (simp add: demo_defs commit_defs)

lemma Commit_demoTxBig: "fst (Commit demoE demoTxBig demoDB) = Return (Some ErrDataSizeExceed)"
  by (simp add: demo_defs commit_defs)

section \<open>The claims\<close>

text \<open>
  Claim C7. Whenever \<^verbatim>\<open>Commit\<close> returns a non-nil error, the configured error handler (if
  any) is invoked with that error before the DB lock is released; and whenever \<^verbatim>\<open>Commit\<close>
  returns, with or without an error, \<^verbatim>\<open>tx.db\<close>, \<^verbatim>\<open>tx.pendingWrites\<close> and
  \<^verbatim>\<open>tx.ReservedStoreTxIDIdxes\<close> are cleared after the lock was released. The trace grows
  by the handler's invocation (only for an error, only with a handler) and then the
  release of the lock, and by nothing else; \<^verbatim>\<open>unlock\<close> needs \<^verbatim>\<open>tx.db\<close>, so the
  clearing comes last.
\<close>

theorem Commit_error_hook:
  assumes "Commit E tx d = (Return r, tx', d')"
  shows "trace d' = trace d
           @ (case r of Some e \<Rightarrow> if ErrorHandler (opt d) then [EvHandleError e] else [] | None \<Rightarrow> [])
           @ [if tx_writable tx then EvUnlock else EvRUnlock]
         \<and> tx_db tx' = None \<and> tx_pendingWrites tx' = [] \<and> tx_ReservedStoreTxIDIdxes tx' = []"
proof (cases "tx_db tx")
  case None
  then have "fst (Commit E tx d) = Panic"
    by (simp add: Commit_def Commit_exit_detached setStatusClosed_def)
  with assms show ?thesis by simp
next
  case (Some u)
  then have db: "tx_db tx = Some ()" by simp
  show ?thesis
  proof (cases "tx_status tx = txStatusClosed")
    case True
    with db assms show ?thesis
      by (auto simp: Commit_def isClosed_def Commit_exit_attached)
  next
    case nc: False
    show ?thesis
    proof (cases "tx_pendingWrites tx = []")
      case True
      with db nc assms show ?thesis
        by (auto simp: Commit_def isClosed_def Commit_exit_attached setStatusClosed_def
              setStatusCommitting_def)
    next
      case False
      let ?r0 = "Commit_entries E (\<not> isMerging d) False (tx_pendingWrites tx)
                  (Commit_init E (setStatusCommitting tx) d)"
      from Commit_running[OF nc db False, of E d] assms show ?thesis
        by (cases ?r0) (auto simp: Let_def)
    qed
  qed
qed

text \<open>Witness for C7: the transaction with the oversized entry returns
  \<^verbatim>\<open>ErrDataSizeExceed\<close>; the handler runs, then the lock is released.\<close>

theorem Commit_error_hook_witness:
  "Commit demoE demoTxBig demoDB =
     (Return (Some ErrDataSizeExceed), fst (snd (Commit demoE demoTxBig demoDB)),
      snd (snd (Commit demoE demoTxBig demoDB)))
   \<and> trace (snd (snd (Commit demoE demoTxBig demoDB))) = [EvHandleError ErrDataSizeExceed, EvUnlock]
   \<and> tx_db (fst (snd (Commit demoE demoTxBig demoDB))) = None
   \<and> tx_pendingWrites (fst (snd (Commit demoE demoTxBig demoDB))) = []
   \<and> tx_ReservedStoreTxIDIdxes (fst (snd (Commit demoE demoTxBig demoDB))) = []"
proof -
  have c: "Commit demoE demoTxBig demoDB =
     (Return (Some ErrDataSizeExceed), fst (snd (Commit demoE demoTxBig demoDB)),
      snd (snd (Commit demoE demoTxBig demoDB)))"
    using Commit_demoTxBig by (metis prod.collapse)
  have w: "tx_writable demoTxBig" "ErrorHandler (opt demoDB)" "trace demoDB = []"
    by (simp_all add: demo_defs)
  from Commit_error_hook[OF c] w c show ?thesis by simp
qed

text \<open>
  Claim C6. For a transaction with empty \<^verbatim>\<open>pendingWrites\<close>: \<^verbatim>\<open>Commit\<close> (on a transaction
  that is not closed and still has its DB) returns nil and leaves the DB as it was but for
  the release of the lock, so no segment file and no index is written; and \<^verbatim>\<open>CommitWith\<close>
  starts the callback runner on another goroutine with a nil error and without a commit
  closure, which calls the user callback with nil, and never submits the transaction to
  the dispatcher (no \<open>EvSendToWriteCh\<close>).
\<close>

theorem Commit_empty_noop:
  assumes "tx_pendingWrites tx = []"
  shows "(tx_status tx \<noteq> txStatusClosed \<and> tx_db tx = Some () \<longrightarrow>
           Commit E tx d =
             (Return None,
              tx\<lparr>tx_status := txStatusClosed, tx_db := None, tx_pendingWrites := [],
                 tx_ReservedStoreTxIDIdxes := []\<rparr>,
              d\<lparr>trace := trace d @ [if tx_writable tx then EvUnlock else EvRUnlock]\<rparr>))
       \<and> CommitWith (Some u) tx d =
           Return (d\<lparr>trace := trace d @ [EvGo \<lparr>cb_commit = False, cb_user = Some u, cb_err = None\<rparr>]\<rparr>)
       \<and> runTxnCallback (Some \<lparr>cb_commit = False, cb_user = Some u, cb_err = None\<rparr>) d2 =
           Return (d2\<lparr>trace := trace d2 @ [EvUserCallback u None]\<rparr>)"
  using assms
  by (auto simp: Commit_def Commit_exit_def Commit_cleanup_def isClosed_def setStatusClosed_def
        setStatusCommitting_def unlock_def CommitWith_def runTxnCallback_def)

text \<open>Witness for C6: the empty running transaction on the concrete database.\<close>

theorem Commit_empty_noop_witness:
  "tx_pendingWrites demoTx = [] \<and> tx_status demoTx \<noteq> txStatusClosed \<and> tx_db demoTx = Some ()
   \<and> fst (Commit demoE demoTx demoDB) = Return None
   \<and> dfiles (snd (snd (Commit demoE demoTx demoDB))) = dfiles demoDB
   \<and> didx (snd (snd (Commit demoE demoTx demoDB))) = didx demoDB
   \<and> trace (snd (snd (Commit demoE demoTx demoDB))) = [EvUnlock]
   \<and> CommitWith (Some 1) demoTx demoDB =
        Return (demoDB\<lparr>trace := [EvGo \<lparr>cb_commit = False, cb_user = Some 1, cb_err = None\<rparr>]\<rparr>)"
proof -
  have h: "tx_pendingWrites demoTx = []" "tx_status demoTx \<noteq> txStatusClosed" "tx_db demoTx = Some ()"
       "tx_writable demoTx" "trace demoDB = []"
    by (simp_all add: demoTx_def demoDB_def)
  from Commit_empty_noop[OF h(1), of demoE demoDB 1 demoDB] h show ?thesis
    by simp
qed

text \<open>
  Claim C4, as amended. \<^verbatim>\<open>checkSize\<close> reports \<^verbatim>\<open>ErrTxnTooBig\<close> exactly when the number
  of pending writes has reached \<^verbatim>\<open>MaxBatchCount\<close> or their size has reached
  \<^verbatim>\<open>MaxBatchSize\<close>, and nil otherwise; it changes nothing. \<^verbatim>\<open>put\<close> does not call
  \<^verbatim>\<open>checkSize\<close>: on a writable transaction with a valid entry it appends the entry and
  adds its size whatever the bounds are.
\<close>

theorem checkSize_put_bounds:
  assumes "tx_db tx = Some ()"
  shows "(checkSize tx d = Return (Some ErrTxnTooBig)) =
           (int (length (tx_pendingWrites tx)) \<ge> MaxBatchCount (opt d) \<or> tx_size tx \<ge> MaxBatchSize (opt d))
       \<and> (checkSize tx d = Return None) =
           (int (length (tx_pendingWrites tx)) < MaxBatchCount (opt d) \<and> tx_size tx < MaxBatchSize (opt d))
       \<and> (tx_writable tx \<and> valid E (newEntry tx bucket key val ttl flg ts dsv) = None \<longrightarrow>
            put E bucket key val ttl flg ts dsv tx =
              (None, tx\<lparr>tx_pendingWrites := tx_pendingWrites tx @ [newEntry tx bucket key val ttl flg ts dsv],
                        tx_size := tx_size tx + int (Size E (newEntry tx bucket key val ttl flg ts dsv))\<rparr>))"
  using assms by (auto simp: checkSize_def put_def checkTxIsClosed_def Let_def)

text \<open>The transaction with two pending writes, on a database with \<^verbatim>\<open>MaxBatchCount = 2\<close>.\<close>

lemma demoTx2_fields:
  "tx_db demoTx2 = Some ()" "tx_writable demoTx2" "length (tx_pendingWrites demoTx2) = 2"
  "tx_size demoTx2 = 160" "tx_status demoTx2 = txStatusRunning"
  by (simp_all add: demo_defs)

text \<open>Witness for C4: at the bound \<^verbatim>\<open>checkSize\<close> reports the error and \<^verbatim>\<open>put\<close>
  appends.\<close>

theorem checkSize_put_bounds_witness:
  "tx_db demoTx2 = Some () \<and> tx_writable demoTx2
   \<and> valid demoE (newEntry demoTx2 ''b'' ''e'' v36 0 DataSetFlag 1000 DataStructureTree) = None
   \<and> checkSize demoTx2 demoDB = Return (Some ErrTxnTooBig)
   \<and> put demoE ''b'' ''e'' v36 0 DataSetFlag 1000 DataStructureTree demoTx2 =
       (None, demoTx2\<lparr>tx_pendingWrites := tx_pendingWrites demoTx2 @
                         [newEntry demoTx2 ''b'' ''e'' v36 0 DataSetFlag 1000 DataStructureTree],
                      tx_size := 240\<rparr>)"
proof -
  have v: "valid demoE (newEntry demoTx2 ''b'' ''e'' v36 0 DataSetFlag 1000 DataStructureTree) = None"
    by (simp add: demoE_def newEntry_def)
  have s: "int (Size demoE (newEntry demoTx2 ''b'' ''e'' v36 0 DataSetFlag 1000 DataStructureTree)) = 80"
    by (simp add: demoE_def newEntry_def v36_def)
  have m: "MaxBatchCount (opt demoDB) = 2" by (simp add: demoDB_def)
  from checkSize_put_bounds[OF demoTx2_fields(1), of demoDB demoE "''b''" "''e''" v36 0 DataSetFlag 1000 DataStructureTree]
  show ?thesis using demoTx2_fields v s m by simp
qed

text \<open>Counterexample to C4 as stated: with \<^verbatim>\<open>MaxBatchCount = 2\<close> reached, a third
  \<^verbatim>\<open>Put\<close> returns nil, not \<^verbatim>\<open>ErrTxnTooBig\<close>, and the transaction holds three writes.\<close>

theorem put_past_bound_counterexample:
  "int (length (tx_pendingWrites demoTx2)) \<ge> MaxBatchCount (opt demoDB)
   \<and> checkSize demoTx2 demoDB = Return (Some ErrTxnTooBig)
   \<and> fst (Put demoE 1000 ''b'' ''e'' v36 0 demoTx2) = None
   \<and> fst (Put demoE 1000 ''b'' ''e'' v36 0 demoTx2) \<noteq> Some ErrTxnTooBig
   \<and> length (tx_pendingWrites (snd (Put demoE 1000 ''b'' ''e'' v36 0 demoTx2))) = 3"
  by (simp add: demo_defs demoDB_def checkSize_def Put_def)

text \<open>A \<^verbatim>\<open>Commit\<close> that returns leaves the transaction closed and without its DB.\<close>

lemma Commit_Return_tx:
  assumes "Commit E tx d = (Return r, tx', d')"
  shows "tx_db tx' = None \<and> tx_status tx' = txStatusClosed"
proof (cases "tx_db tx")
  case None
  then have "fst (Commit E tx d) = Panic"
    by (simp add: Commit_def Commit_exit_detached setStatusClosed_def)
  with assms show ?thesis by simp
next
  case (Some u)
  then have db: "tx_db tx = Some ()" by simp
  show ?thesis
  proof (cases "tx_status tx = txStatusClosed")
    case True
    with db assms show ?thesis
      by (auto simp: Commit_def isClosed_def Commit_exit_attached)
  next
    case nc: False
    show ?thesis
    proof (cases "tx_pendingWrites tx = []")
      case True
      with db nc assms show ?thesis
        by (auto simp: Commit_def isClosed_def Commit_exit_attached setStatusClosed_def
              setStatusCommitting_def)
    next
      case False
      from Commit_running[OF nc db False, of E d] assms show ?thesis
        by (auto simp: Let_def)
    qed
  qed
qed

text \<open>
  Claim C5, as amended. \<^verbatim>\<open>Rollback\<close> succeeds only from status Running with the DB
  attached. While \<^verbatim>\<open>tx.db\<close> is set, \<^verbatim>\<open>Rollback\<close> of a committing transaction returns
  \<^verbatim>\<open>ErrCannotRollbackACommittingTx\<close> and \<^verbatim>\<open>Rollback\<close> of a closed one returns
  \<^verbatim>\<open>ErrCannotRollbackAClosedTx\<close>, neither changing the transaction or the DB. Once
  \<^verbatim>\<open>tx.db\<close> is nil, \<^verbatim>\<open>Rollback\<close> returns \<^verbatim>\<open>ErrDBClosed\<close> and only sets the status to
  closed; this is what a repeated \<^verbatim>\<open>Rollback\<close> meets after a \<^verbatim>\<open>Commit\<close> that returned
  or after a successful \<^verbatim>\<open>Rollback\<close>, where it changes nothing. \<^verbatim>\<open>Commit\<close> of a closed
  transaction that still has its DB returns \<^verbatim>\<open>ErrCannotCommitAClosedTx\<close>, touching no
  file and no index; its deferred cleanup runs (handler, release of the lock, clearing of
  the fields).
\<close>

theorem Rollback_Commit_closed:
  "(fst (Rollback tx d) = Return None \<longrightarrow> tx_status tx = txStatusRunning \<and> tx_db tx = Some ())
   \<and> (tx_db tx = Some () \<and> tx_status tx = txStatusCommitting \<longrightarrow>
        Rollback tx d = (Return (Some ErrCannotRollbackACommittingTx), tx, d))
   \<and> (tx_db tx = Some () \<and> tx_status tx = txStatusClosed \<longrightarrow>
        Rollback tx d = (Return (Some ErrCannotRollbackAClosedTx), tx, d))
   \<and> (tx_db tx = None \<longrightarrow>
        Rollback tx d = (Return (Some ErrDBClosed), tx\<lparr>tx_status := txStatusClosed\<rparr>, d))
   \<and> (Commit E tx d = (Return r, tx', d') \<longrightarrow>
        Rollback tx' d' = (Return (Some ErrDBClosed), tx', d'))
   \<and> (Rollback tx d = (Return None, tx', d') \<longrightarrow>
        Rollback tx' d' = (Return (Some ErrDBClosed), tx', d'))
   \<and> (tx_db tx = Some () \<and> tx_status tx = txStatusClosed \<longrightarrow>
        Commit E tx d =
          (Return (Some ErrCannotCommitAClosedTx),
           tx\<lparr>tx_db := None, tx_pendingWrites := [], tx_ReservedStoreTxIDIdxes := []\<rparr>,
           d\<lparr>trace := trace d @ (if ErrorHandler (opt d) then [EvHandleError ErrCannotCommitAClosedTx] else [])
                @ [if tx_writable tx then EvUnlock else EvRUnlock]\<rparr>))"
proof -
  have a: "fst (Rollback tx d) = Return None \<longrightarrow> tx_status tx = txStatusRunning \<and> tx_db tx = Some ()"
    by (cases "tx_status tx")
       (auto simp: Rollback_def isCommitting_def isClosed_def setStatusClosed_def unlock_def
          split: if_splits option.splits)
  have b: "tx_db tx = Some () \<and> tx_status tx = txStatusCommitting \<longrightarrow>
        Rollback tx d = (Return (Some ErrCannotRollbackACommittingTx), tx, d)"
    by (simp add: Rollback_def isCommitting_def)
  have c: "tx_db tx = Some () \<and> tx_status tx = txStatusClosed \<longrightarrow>
        Rollback tx d = (Return (Some ErrCannotRollbackAClosedTx), tx, d)"
    by (simp add: Rollback_def isCommitting_def isClosed_def)
  have dd: "tx_db tx = None \<longrightarrow>
        Rollback tx d = (Return (Some ErrDBClosed), tx\<lparr>tx_status := txStatusClosed\<rparr>, d)"
    by (simp add: Rollback_def setStatusClosed_def)
  have e: "Commit E tx d = (Return r, tx', d') \<longrightarrow>
        Rollback tx' d' = (Return (Some ErrDBClosed), tx', d')"
  proof
    assume "Commit E tx d = (Return r, tx', d')"
    from Commit_Return_tx[OF this] show "Rollback tx' d' = (Return (Some ErrDBClosed), tx', d')"
      by (simp add: Rollback_def setStatusClosed_def)
  qed
  have f: "Rollback tx d = (Return None, tx', d') \<longrightarrow>
        Rollback tx' d' = (Return (Some ErrDBClosed), tx', d')"
    by (auto simp: Rollback_def setStatusClosed_def unlock_def split: if_splits option.splits)
  have g: "tx_db tx = Some () \<and> tx_status tx = txStatusClosed \<longrightarrow>
        Commit E tx d =
          (Return (Some ErrCannotCommitAClosedTx),
           tx\<lparr>tx_db := None, tx_pendingWrites := [], tx_ReservedStoreTxIDIdxes := []\<rparr>,
           d\<lparr>trace := trace d @ (if ErrorHandler (opt d) then [EvHandleError ErrCannotCommitAClosedTx] else [])
                @ [if tx_writable tx then EvUnlock else EvRUnlock]\<rparr>)"
    by (simp add: Commit_def isClosed_def Commit_exit_attached)
  show ?thesis by (intro conjI a b c dd e f g)
qed

text \<open>Counterexample to C5 as stated: after the commit of two entries has returned nil,
  the transaction is closed and \<^verbatim>\<open>Rollback\<close> returns \<^verbatim>\<open>ErrDBClosed\<close>, not
  \<^verbatim>\<open>ErrCannotRollbackAClosedTx\<close>.\<close>

theorem Rollback_after_Commit_counterexample:
  "fst (Commit demoE demoTx2 demoDB) = Return None
   \<and> tx_status (fst (snd (Commit demoE demoTx2 demoDB))) = txStatusClosed
   \<and> fst (Rollback (fst (snd (Commit demoE demoTx2 demoDB))) (snd (snd (Commit demoE demoTx2 demoDB))))
       = Return (Some ErrDBClosed)
   \<and> fst (Rollback (fst (snd (Commit demoE demoTx2 demoDB))) (snd (snd (Commit demoE demoTx2 demoDB))))
       \<noteq> Return (Some ErrCannotRollbackAClosedTx)"
proof -
  have c: "Commit demoE demoTx2 demoDB =
     (Return None, fst (snd (Commit demoE demoTx2 demoDB)), snd (snd (Commit demoE demoTx2 demoDB)))"
    using Commit_demoTx2_ok by (metis prod.collapse)
  from Commit_Return_tx[OF c] Commit_demoTx2_ok show ?thesis
    by (simp add: Rollback_def setStatusClosed_def)
qed

text \<open>Witness for C5: every case of the theorem on the concrete transaction.\<close>

theorem Rollback_Commit_closed_witness:
  "fst (Rollback demoTx demoDB) = Return None
   \<and> tx_status demoTx = txStatusRunning \<and> tx_db demoTx = Some ()
   \<and> Rollback (demoTx\<lparr>tx_status := txStatusCommitting\<rparr>) demoDB =
       (Return (Some ErrCannotRollbackACommittingTx), demoTx\<lparr>tx_status := txStatusCommitting\<rparr>, demoDB)
   \<and> Rollback (demoTx\<lparr>tx_status := txStatusClosed\<rparr>) demoDB =
       (Return (Some ErrCannotRollbackAClosedTx), demoTx\<lparr>tx_status := txStatusClosed\<rparr>, demoDB)
   \<and> fst (Rollback (demoTx\<lparr>tx_db := None\<rparr>) demoDB) = Return (Some ErrDBClosed)
   \<and> fst (Rollback (fst (snd (Commit demoE demoTx2 demoDB))) (snd (snd (Commit demoE demoTx2 demoDB))))
       = Return (Some ErrDBClosed)
   \<and> fst (Rollback (fst (snd (Rollback demoTx demoDB))) (snd (snd (Rollback demoTx demoDB))))
       = Return (Some ErrDBClosed)
   \<and> fst (Commit demoE (demoTx\<lparr>tx_status := txStatusClosed\<rparr>) demoDB)
       = Return (Some ErrCannotCommitAClosedTx)"
proof -
  have c: "Commit demoE demoTx2 demoDB =
     (Return None, fst (snd (Commit demoE demoTx2 demoDB)), snd (snd (Commit demoE demoTx2 demoDB)))"
    using Commit_demoTx2_ok by (metis prod.collapse)
  have r: "fst (Rollback demoTx demoDB) = Return None"
    by (simp add: Rollback_def demoTx_def isCommitting_def isClosed_def setStatusClosed_def unlock_def)
  then have r': "Rollback demoTx demoDB =
     (Return None, fst (snd (Rollback demoTx demoDB)), snd (snd (Rollback demoTx demoDB)))"
    by (metis prod.collapse)
  have h: "tx_db demoTx = Some ()" "tx_status demoTx = txStatusRunning"
    by (simp_all add: demoTx_def)
  note t1 = Rollback_Commit_closed[of demoTx demoDB demoE None
      "fst (snd (Rollback demoTx demoDB))" "snd (snd (Rollback demoTx demoDB))"]
  note t2 = Rollback_Commit_closed[of "demoTx\<lparr>tx_status := txStatusCommitting\<rparr>" demoDB demoE None demoTx demoDB]
  note t3 = Rollback_Commit_closed[of "demoTx\<lparr>tx_status := txStatusClosed\<rparr>" demoDB demoE None demoTx demoDB]
  note t4 = Rollback_Commit_closed[of "demoTx\<lparr>tx_db := None\<rparr>" demoDB demoE None demoTx demoDB]
  note t5 = Rollback_Commit_closed[of demoTx2 demoDB demoE None
      "fst (snd (Commit demoE demoTx2 demoDB))" "snd (snd (Commit demoE demoTx2 demoDB))"]
  have w2: "Rollback (demoTx\<lparr>tx_status := txStatusCommitting\<rparr>) demoDB =
       (Return (Some ErrCannotRollbackACommittingTx), demoTx\<lparr>tx_status := txStatusCommitting\<rparr>, demoDB)"
    using t2[THEN conjunct2, THEN conjunct1] h by simp
  have w3: "Rollback (demoTx\<lparr>tx_status := txStatusClosed\<rparr>) demoDB =
       (Return (Some ErrCannotRollbackAClosedTx), demoTx\<lparr>tx_status := txStatusClosed\<rparr>, demoDB)"
    using t3[THEN conjunct2, THEN conjunct2, THEN conjunct1] h by simp
  have w4: "fst (Rollback (demoTx\<lparr>tx_db := None\<rparr>) demoDB) = Return (Some ErrDBClosed)"
    using t4[THEN conjunct2, THEN conjunct2, THEN conjunct2, THEN conjunct1] by simp
  have w5: "fst (Rollback (fst (snd (Commit demoE demoTx2 demoDB))) (snd (snd (Commit demoE demoTx2 demoDB))))
       = Return (Some ErrDBClosed)"
    using t5[THEN conjunct2, THEN conjunct2, THEN conjunct2, THEN conjunct2, THEN conjunct1] c by simp
  have w6: "fst (Rollback (fst (snd (Rollback demoTx demoDB))) (snd (snd (Rollback demoTx demoDB))))
       = Return (Some ErrDBClosed)"
    using t1[THEN conjunct2, THEN conjunct2, THEN conjunct2, THEN conjunct2, THEN conjunct2, THEN conjunct1] r'
    by simp
  have w7: "fst (Commit demoE (demoTx\<lparr>tx_status := txStatusClosed\<rparr>) demoDB)
       = Return (Some ErrCannotCommitAClosedTx)"
    using t3[THEN conjunct2, THEN conjunct2, THEN conjunct2, THEN conjunct2, THEN conjunct2, THEN conjunct2] h
    by simp
  show ?thesis
    by (intro conjI r h w2 w3 w4 w5 w6 w7)
qed

text \<open>Adding one to an \<^verbatim>\<open>int64\<close> below its largest value does not wrap.\<close>

lemma sint_succ64: "sint (x :: 64 word) < 2 ^ 63 - 1 \<Longrightarrow> sint (x + 1) = sint x + 1"
proof -
  assume a: "sint x < 2 ^ 63 - 1"
  have lo: "- (2 ^ 63) \<le> sint x" using sint_ge[of x] by simp
  have "sint (x + 1) = signed_take_bit 63 (sint x + 1)"
    by (simp add: sint_word_ariths)
  also have "\<dots> = sint x + 1"
    using a lo by (intro signed_take_bit_int_eq_self) simp_all
  finally show ?thesis .
qed

text \<open>What a rotation does to the segment files and to \<^verbatim>\<open>MaxFileID\<close>.\<close>

lemma dfiles_fields:
  "ActiveFile d = fst (dfiles d)" "released d = fst (snd (dfiles d))" "MaxFileID d = snd (snd (dfiles d))"
  by (simp_all add: dfiles_def)

lemma dfiles_upd_files:
  "dfiles (d\<lparr>MaxFileID := m\<rparr>) = (fst (dfiles d), fst (snd (dfiles d)), m)"
  "dfiles (d\<lparr>released := r\<rparr>) = (fst (dfiles d), r, snd (snd (dfiles d)))"
  "dfiles (d\<lparr>ActiveFile := a\<rparr>) = (a, fst (snd (dfiles d)), snd (snd (dfiles d)))"
  by (simp_all add: dfiles_def)

lemma rotateActiveFile_dfiles:
  "dfiles (snd (snd (rotateActiveFile tx d))) =
     (if fst (rotateActiveFile tx d) = None
      then (getDataFile\<lparr>fileID := MaxFileID d + 1\<rparr>, released d @ [ActiveFile d], MaxFileID d + 1)
      else (ActiveFile d, released d, MaxFileID d + 1))"
  by (simp add: rotateActiveFile_def Let_def split_beta dfiles_fields dfiles_upd_files
        split: option.splits)

lemma rotateActiveFile_ok:
  assumes "rotateActiveFile tx d = (None, tx', d')"
  shows "MaxFileID d' = MaxFileID d + 1"
    "ActiveFile d' = \<lparr>fileID = MaxFileID d + 1, writeOff = 0, ActualSize = 0, content = []\<rparr>"
    "released d' = released d @ [ActiveFile d]"
  using rotateActiveFile_dfiles[of tx d] assms
  by (simp_all add: dfiles_def getDataFile_def)

text \<open>
  Claim C8. Every successful rotation increments \<^verbatim>\<open>MaxFileID\<close> by exactly one and
  installs a new active segment whose \<^verbatim>\<open>fileID\<close> is the new \<^verbatim>\<open>MaxFileID\<close>; the
  segment that was active joins the released ones. Hence, as long as the \<^verbatim>\<open>int64\<close>
  counter has not reached its largest value, the new active file id is greater than the
  one before, and the ids of all segments, in the order in which they were active, stay
  strictly increasing and at most \<^verbatim>\<open>MaxFileID\<close>: no id is used twice.
\<close>

theorem rotateActiveFile_fileID:
  "(rotateActiveFile tx d = (None, tx', d') \<longrightarrow>
      MaxFileID d' = MaxFileID d + 1 \<and> fileID (ActiveFile d') = MaxFileID d'
      \<and> released d' = released d @ [ActiveFile d])
   \<and> (rotateActiveFile tx d = (None, tx', d') \<and> ids_increasing d \<and> sint (MaxFileID d) < 2 ^ 63 - 1 \<longrightarrow>
      fileID (ActiveFile d) <s fileID (ActiveFile d') \<and> ids_increasing d')"
proof (intro conjI impI)
  assume a: "rotateActiveFile tx d = (None, tx', d')"
  note r = rotateActiveFile_ok[OF a]
  show "MaxFileID d' = MaxFileID d + 1" by (rule r)
  show "fileID (ActiveFile d') = MaxFileID d'" by (simp add: r)
  show "released d' = released d @ [ActiveFile d]" by (rule r)
next
  assume b: "rotateActiveFile tx d = (None, tx', d') \<and> ids_increasing d \<and> sint (MaxFileID d) < 2 ^ 63 - 1"
  then have a: "rotateActiveFile tx d = (None, tx', d')" and inc: "ids_increasing d"
    and no: "sint (MaxFileID d) < 2 ^ 63 - 1" by simp_all
  note r = rotateActiveFile_ok[OF a]
  from inc have s: "sorted_wrt (\<lambda>a b. a <s b) (map fileID (released d) @ [fileID (ActiveFile d)])"
    and le: "fileID (ActiveFile d) \<le>s MaxFileID d"
    by (simp_all add: ids_increasing_def)
  have lt: "fileID (ActiveFile d) <s MaxFileID d + 1"
    using le sint_succ64[OF no] by (simp add: word_sle_eq word_sless_alt)
  from s have old: "\<forall>x\<in>set (released d). fileID x <s fileID (ActiveFile d)"
    by (simp add: sorted_wrt_append)
  have all: "\<forall>x\<in>set (released d). fileID x <s MaxFileID d + 1"
    using old lt by (auto simp: word_sless_alt)
  show "fileID (ActiveFile d) <s fileID (ActiveFile d')" using lt by (simp add: r)
  show "ids_increasing d'"
    using s lt all by (simp add: ids_increasing_def r sorted_wrt_append)
qed


text \<open>Witness for C8: the first rotation of the concrete database, from file 0 to
  file 1.\<close>

lemma rotate_demo: "fst (rotateActiveFile demoTx demoDB) = None"
  by (simp add: rotateActiveFile_def demoDB_def io_call_def Let_def)

theorem rotateActiveFile_fileID_witness:
  "rotateActiveFile demoTx demoDB =
     (None, fst (snd (rotateActiveFile demoTx demoDB)), snd (snd (rotateActiveFile demoTx demoDB)))
   \<and> ids_increasing demoDB \<and> sint (MaxFileID demoDB) < 2 ^ 63 - 1
   \<and> MaxFileID (snd (snd (rotateActiveFile demoTx demoDB))) = 1
   \<and> fileID (ActiveFile (snd (snd (rotateActiveFile demoTx demoDB)))) = 1
   \<and> released (snd (snd (rotateActiveFile demoTx demoDB))) = [ActiveFile demoDB]
   \<and> fileID (ActiveFile demoDB) <s fileID (ActiveFile (snd (snd (rotateActiveFile demoTx demoDB))))
   \<and> ids_increasing (snd (snd (rotateActiveFile demoTx demoDB)))"
proof -
  have c: "rotateActiveFile demoTx demoDB =
     (None, fst (snd (rotateActiveFile demoTx demoDB)), snd (snd (rotateActiveFile demoTx demoDB)))"
    using rotate_demo by (metis prod.collapse)
  have i: "ids_increasing demoDB" by (simp add: ids_increasing_def demoDB_def)
  have n: "sint (MaxFileID demoDB) < 2 ^ 63 - 1" by (simp add: demoDB_def)
  have m: "MaxFileID demoDB = 0" "released demoDB = []" by (simp_all add: demoDB_def)
  note t = rotateActiveFile_fileID[of demoTx demoDB "fst (snd (rotateActiveFile demoTx demoDB))"
      "snd (snd (rotateActiveFile demoTx demoDB))"]
  from t[THEN conjunct1] c have a: "MaxFileID (snd (snd (rotateActiveFile demoTx demoDB))) = 1"
    "fileID (ActiveFile (snd (snd (rotateActiveFile demoTx demoDB)))) = 1"
    "released (snd (snd (rotateActiveFile demoTx demoDB))) = [ActiveFile demoDB]"
    using m by simp_all
  from t[THEN conjunct2] c i n have b:
    "fileID (ActiveFile demoDB) <s fileID (ActiveFile (snd (snd (rotateActiveFile demoTx demoDB))))"
    "ids_increasing (snd (snd (rotateActiveFile demoTx demoDB)))"
    by simp_all
  show ?thesis by (intro conjI c i n a b)
qed

lemma didx_eqD:
  "didx a = didx b \<Longrightarrow> BTreeIdx a = BTreeIdx b \<and> tm a = tm b \<and> SetIdx a = SetIdx b
     \<and> SortedSetIdx a = SortedSetIdx b \<and> ListIdx a = ListIdx b \<and> KeyCount a = KeyCount b"
  by (simp add: didx_def)

text \<open>\<^verbatim>\<open>buildTreeIdx\<close> on an entry that has expired: at most an empty tree for the bucket
  is created.\<close>

lemma buildTreeIdx_expired:
  assumes "EntryIdxMode (opt d) \<noteq> HintBPTSparseIdxMode"
    and "Flag (hMeta (recH r)) = DataSetFlag" "TTL (hMeta (recH r)) \<noteq> Persistent"
    and "expireTime (hMeta (recH r)) < clock d"
  shows "buildTreeIdx E r cf d =
           (if BTreeIdx d (recBucket r) = None
            then d\<lparr>BTreeIdx := (BTreeIdx d)(recBucket r \<mapsto> Map.empty)\<rparr> else d)"
  using assms by (simp add: buildTreeIdx_def Let_def)

lemma Commit_index_tree:
  assumes "EntryIdxMode (opt (c_db st)) \<noteq> HintBPTSparseIdxMode" "Ds (Meta e) = DataStructureTree"
  shows "Commit_index E cf l e off st =
           Ok (st\<lparr>c_db := buildTreeIdx E
                   \<lparr>recH = \<lparr>hKey = Key e, hFileID = fileID (ActiveFile (c_db st)),
                             hMeta = Meta e, hDataPos = word_of_int off\<rparr>,
                    recV = Some (Value e), recBucket = Bucket e\<rparr> cf (c_db st)\<rparr>)"
  using assms by (simp add: Commit_index_def Let_def)

text \<open>A pass of the loop body that runs through ran through its three parts.\<close>

lemma Commit_entry_Ok_steps:
  assumes "Commit_entry E cf l e st = Ok st'"
  shows "Commit_rotate E e st = Ok (res_state (Commit_rotate E e st))"
    and "Commit_encode E l (stamp l e)
           (writeOff (ActiveFile (c_db (res_state (Commit_rotate E e st))))
              + Len E (c_buff (res_state (Commit_rotate E e st))))
           (res_state (Commit_rotate E e st))
         = Ok (res_state (Commit_encode E l (stamp l e)
           (writeOff (ActiveFile (c_db (res_state (Commit_rotate E e st))))
              + Len E (c_buff (res_state (Commit_rotate E e st))))
           (res_state (Commit_rotate E e st))))"
    and "Commit_index E cf l (stamp l e)
           (writeOff (ActiveFile (c_db (res_state (Commit_rotate E e st))))
              + Len E (c_buff (res_state (Commit_rotate E e st))))
           (res_state (Commit_encode E l (stamp l e)
           (writeOff (ActiveFile (c_db (res_state (Commit_rotate E e st))))
              + Len E (c_buff (res_state (Commit_rotate E e st))))
           (res_state (Commit_rotate E e st)))) = Ok st'"
  using assms
  by (auto simp: Commit_entry_def Let_def split: res.splits)

text \<open>
  Claim C10, as amended. In the default (non-sparse) index modes, when the loop of
  \<^verbatim>\<open>Commit\<close> processes a Tree entry with flag Set whose TTL is not Persistent and
  whose expiry time (timestamp + ttl) is strictly before the time of the clock, the entry
  is encoded into the commit buffer that goes to the log, but it is not scheduled with the
  TTL manager and not inserted into the B-tree of its bucket: the index changes at most by
  an empty tree for a bucket that had none.
\<close>

theorem expired_entry_not_indexed:
  assumes mode: "EntryIdxMode (opt (c_db st)) \<noteq> HintBPTSparseIdxMode"
    and tree: "Ds (Meta e) = DataStructureTree"
    and setf: "Flag (Meta e) = DataSetFlag"
    and ttl: "TTL (Meta e) \<noteq> Persistent"
    and expired: "expireTime (Meta e) < clock (c_db st)"
    and ok: "Commit_entry E cf is_last e st = Ok st'"
  shows "c_buff st' \<noteq> [] \<and> last (c_buff st') = stamp is_last e
       \<and> tm (c_db st') = tm (c_db st)
       \<and> BTreeIdx (c_db st') =
           (if BTreeIdx (c_db st) (Bucket e) = None
            then (BTreeIdx (c_db st))(Bucket e \<mapsto> Map.empty) else BTreeIdx (c_db st))"
proof -
  let ?st1 = "res_state (Commit_rotate E e st)"
  let ?off = "writeOff (ActiveFile (c_db ?st1)) + Len E (c_buff ?st1)"
  let ?e = "stamp is_last e"
  let ?st2 = "res_state (Commit_encode E is_last ?e ?off ?st1)"
  note steps = Commit_entry_Ok_steps[OF ok]
  have m: "Ds (Meta ?e) = DataStructureTree" "Flag (Meta ?e) = DataSetFlag"
    "TTL (Meta ?e) \<noteq> Persistent" "expireTime (Meta ?e) = expireTime (Meta e)"
    "Bucket ?e = Bucket e"
    using tree setf ttl by (simp_all add: stamp_def expireTime_def)
  have fx: "dfix (c_db ?st2) = dfix (c_db st)" by simp
  have ix: "didx (c_db ?st2) = didx (c_db st)" by simp
  have bf: "c_buff ?st2 = c_buff ?st1 @ [?e]" by simp
  from dfix_eqD[OF fx] have o: "opt (c_db ?st2) = opt (c_db st)" "clock (c_db ?st2) = clock (c_db st)"
    by simp_all
  from didx_eqD[OF ix] have i: "BTreeIdx (c_db ?st2) = BTreeIdx (c_db st)" "tm (c_db ?st2) = tm (c_db st)"
    by simp_all
  let ?r = "\<lparr>recH = \<lparr>hKey = Key ?e, hFileID = fileID (ActiveFile (c_db ?st2)),
                             hMeta = Meta ?e, hDataPos = word_of_int ?off\<rparr>,
                    recV = Some (Value ?e), recBucket = Bucket ?e\<rparr>"
  have "Commit_index E cf is_last ?e ?off ?st2 = Ok (?st2\<lparr>c_db := buildTreeIdx E ?r cf (c_db ?st2)\<rparr>)"
    using mode o m by (intro Commit_index_tree) simp_all
  with steps(3) have st': "st' = ?st2\<lparr>c_db := buildTreeIdx E ?r cf (c_db ?st2)\<rparr>" by simp
  have b: "buildTreeIdx E ?r cf (c_db ?st2) =
        (if BTreeIdx (c_db ?st2) (Bucket e) = None
            then (c_db ?st2)\<lparr>BTreeIdx := (BTreeIdx (c_db ?st2))(Bucket e \<mapsto> Map.empty)\<rparr> else c_db ?st2)"
    using buildTreeIdx_expired[of "c_db ?st2" ?r E cf] mode o m expired by simp
  show ?thesis
    unfolding st' b using i bf by simp
qed


text \<open>The entry of the transactions with a time to live.\<close>

lemma demoTxTTL_pending: "tx_pendingWrites (demoTxTTL ts) = [newEntry demoTx ''b'' ''a'' v36 1 DataSetFlag ts DataStructureTree]"
  by (simp add: demoTxTTL_def demo_defs)

lemma ttl_entry_ok:
  "is_Ok (Commit_entry demoE True True (newEntry demoTx ''b'' ''a'' v36 1 DataSetFlag ts DataStructureTree)
      (Commit_init demoE (setStatusCommitting (demoTxTTL ts)) demoDB))"
  by (simp add: demoTxTTL_def demo_defs commit_defs)

text \<open>Witness for C10: the entry stamped at 3000 expires at 4000, before the clock's
  5000; it is encoded and not indexed.\<close>

theorem expired_entry_not_indexed_witness:
  "EntryIdxMode (opt demoDB) \<noteq> HintBPTSparseIdxMode
   \<and> expireTime (Meta (newEntry demoTx ''b'' ''a'' v36 1 DataSetFlag 3000 DataStructureTree)) < clock demoDB
   \<and> is_Ok (Commit_entry demoE True True
        (newEntry demoTx ''b'' ''a'' v36 1 DataSetFlag 3000 DataStructureTree)
        (Commit_init demoE (setStatusCommitting (demoTxTTL 3000)) demoDB))
   \<and> last (c_buff (res_state (Commit_entry demoE True True
        (newEntry demoTx ''b'' ''a'' v36 1 DataSetFlag 3000 DataStructureTree)
        (Commit_init demoE (setStatusCommitting (demoTxTTL 3000)) demoDB))))
      = stamp True (newEntry demoTx ''b'' ''a'' v36 1 DataSetFlag 3000 DataStructureTree)
   \<and> tm (c_db (res_state (Commit_entry demoE True True
        (newEntry demoTx ''b'' ''a'' v36 1 DataSetFlag 3000 DataStructureTree)
        (Commit_init demoE (setStatusCommitting (demoTxTTL 3000)) demoDB)))) (''b'', ''a'') = None
   \<and> BTreeIdx (c_db (res_state (Commit_entry demoE True True
        (newEntry demoTx ''b'' ''a'' v36 1 DataSetFlag 3000 DataStructureTree)
        (Commit_init demoE (setStatusCommitting (demoTxTTL 3000)) demoDB)))) ''b'' = Some Map.empty"
proof -
  let ?e = "newEntry demoTx ''b'' ''a'' v36 1 DataSetFlag 3000 DataStructureTree"
  let ?st = "Commit_init demoE (setStatusCommitting (demoTxTTL 3000)) demoDB"
  let ?r = "Commit_entry demoE True True ?e ?st"
  have ok: "?r = Ok (res_state ?r)" using ttl_entry_ok[of 3000] by simp
  have d: "c_db ?st = demoDB" by (simp add: Commit_init_def)
  have h: "EntryIdxMode (opt demoDB) \<noteq> HintBPTSparseIdxMode" "Ds (Meta ?e) = DataStructureTree"
    "Flag (Meta ?e) = DataSetFlag" "TTL (Meta ?e) \<noteq> Persistent"
    "expireTime (Meta ?e) < clock demoDB" "Bucket ?e = ''b''"
    "tm demoDB = Map.empty" "BTreeIdx demoDB = Map.empty"
    by (simp_all add: demoDB_def newEntry_def expireTime_def Persistent_def)
  note t = expired_entry_not_indexed[of ?st ?e demoE True True "res_state ?r", unfolded d, OF h(1-5) ok]
  show ?thesis using t h ttl_entry_ok[of 3000] by simp
qed

text \<open>Counterexample to C10 as stated: the entry stamped at 4000 expires at 5000, the
  time of the clock, so its expiry time is not after the commit time; yet \<^verbatim>\<open>Commit\<close>
  schedules it with the TTL manager (delay 0) and inserts it into the B-tree.\<close>

theorem expiring_now_counterexample:
  "TTL (Meta (newEntry demoTx ''b'' ''a'' v36 1 DataSetFlag 4000 DataStructureTree)) \<noteq> Persistent
   \<and> expireTime (Meta (newEntry demoTx ''b'' ''a'' v36 1 DataSetFlag 4000 DataStructureTree)) \<le> clock demoDB
   \<and> tx_pendingWrites (demoTxTTL 4000) = [newEntry demoTx ''b'' ''a'' v36 1 DataSetFlag 4000 DataStructureTree]
   \<and> fst (Commit demoE (demoTxTTL 4000) demoDB) = Return None
   \<and> tm (snd (snd (Commit demoE (demoTxTTL 4000) demoDB))) (''b'', ''a'') = Some 0
   \<and> map_option (\<lambda>t. map_option (\<lambda>v. hKey (snd v)) (t ''a''))
        (BTreeIdx (snd (snd (Commit demoE (demoTxTTL 4000) demoDB))) ''b'') = Some (Some ''a'')"
  by (simp add: demoTxTTL_def demo_defs commit_defs expireTime_def Sub_def)

end
